theory Spec2Isabelle
  imports Complex_Main
begin

section \<open>Numbers\<close>

text \<open>
  The TypeScript sources compute with the \<^verbatim>\<open>number\<close> type, the IEEE 754 double. A number is
  modelled as a finite value (the real it denotes), one of the two infinities, or \<^verbatim>\<open>NaN\<close>.
  Every arithmetic operation computes the exact real result and rounds it to the nearest
  double, ties to the even significand: \<open>round_double\<close>. A finite double is an integer
  multiple of \<open>2 ^ (e - 52)\<close>, where \<open>e\<close> is the binary exponent of its magnitude, not below
  \<open>-1022\<close> (below that the doubles are the subnormal multiples of \<open>2 ^ -1074\<close>); a rounded
  magnitude of \<open>2 ^ 1024\<close> or more is an infinity. A decimal literal of the source denotes
  the double nearest to it, so it is written \<open>round_double 1.9\<close>.

  The two zeros of the format are one value here: they compare equal (so that equality
  of finite numbers in the model is the \<^verbatim>\<open>===\<close> of the language), and the only division of
  the sources divides by \<^verbatim>\<open>atoms.length\<close>, which is never the negative zero.
\<close>

definition pow2 :: "int \<Rightarrow> real" where
  "pow2 e = (if 0 \<le> e then 2 ^ nat e else 1 / 2 ^ nat (- e))"

definition round_even :: "real \<Rightarrow> int" where
  "round_even r =
     (if r - of_int \<lfloor>r\<rfloor> < 1 / 2 then \<lfloor>r\<rfloor>
      else if 1 / 2 < r - of_int \<lfloor>r\<rfloor> then \<lfloor>r\<rfloor> + 1
      else if even \<lfloor>r\<rfloor> then \<lfloor>r\<rfloor> else \<lfloor>r\<rfloor> + 1)"

definition binade :: "real \<Rightarrow> int" where
  "binade r = max (- 1022) \<lfloor>log 2 \<bar>r\<bar>\<rfloor>"

datatype jsnum = Num real | PosInf | NegInf | NaN

definition round_double :: "real \<Rightarrow> jsnum" where
  "round_double r =
     (if r = 0 then Num 0
      else let u = pow2 (binade r - 52);
               v = of_int (round_even (r / u)) * u
           in if pow2 1024 \<le> \<bar>v\<bar> then (if 0 < r then PosInf else NegInf) else Num v)"

fun jadd :: "jsnum \<Rightarrow> jsnum \<Rightarrow> jsnum" where
  "jadd (Num a) (Num b) = round_double (a + b)"
| "jadd NaN _ = NaN"
| "jadd _ NaN = NaN"
| "jadd PosInf NegInf = NaN"
| "jadd NegInf PosInf = NaN"
| "jadd PosInf _ = PosInf"
| "jadd _ PosInf = PosInf"
| "jadd NegInf _ = NegInf"
| "jadd _ NegInf = NegInf"

fun jsub :: "jsnum \<Rightarrow> jsnum \<Rightarrow> jsnum" where
  "jsub (Num a) (Num b) = round_double (a - b)"
| "jsub NaN _ = NaN"
| "jsub _ NaN = NaN"
| "jsub PosInf PosInf = NaN"
| "jsub NegInf NegInf = NaN"
| "jsub PosInf _ = PosInf"
| "jsub _ PosInf = NegInf"
| "jsub NegInf _ = NegInf"
| "jsub _ NegInf = PosInf"

fun jmul :: "jsnum \<Rightarrow> jsnum \<Rightarrow> jsnum" where
  "jmul (Num a) (Num b) = round_double (a * b)"
| "jmul NaN _ = NaN"
| "jmul _ NaN = NaN"
| "jmul PosInf (Num b) = (if b = 0 then NaN else if 0 < b then PosInf else NegInf)"
| "jmul NegInf (Num b) = (if b = 0 then NaN else if 0 < b then NegInf else PosInf)"
| "jmul (Num a) PosInf = (if a = 0 then NaN else if 0 < a then PosInf else NegInf)"
| "jmul (Num a) NegInf = (if a = 0 then NaN else if 0 < a then NegInf else PosInf)"
| "jmul PosInf PosInf = PosInf"
| "jmul NegInf NegInf = PosInf"
| "jmul PosInf NegInf = NegInf"
| "jmul NegInf PosInf = NegInf"

text \<open>Division; a zero divisor is the positive zero.\<close>

fun jdiv :: "jsnum \<Rightarrow> jsnum \<Rightarrow> jsnum" where
  "jdiv (Num a) (Num b) =
     (if b = 0 then (if a = 0 then NaN else if 0 < a then PosInf else NegInf)
      else round_double (a / b))"
| "jdiv NaN _ = NaN"
| "jdiv _ NaN = NaN"
| "jdiv (Num a) PosInf = Num 0"
| "jdiv (Num a) NegInf = Num 0"
| "jdiv PosInf (Num b) = (if 0 \<le> b then PosInf else NegInf)"
| "jdiv NegInf (Num b) = (if 0 \<le> b then NegInf else PosInf)"
| "jdiv PosInf _ = NaN"
| "jdiv NegInf _ = NaN"

fun jsqrt :: "jsnum \<Rightarrow> jsnum" where
  "jsqrt (Num a) = (if a < 0 then NaN else round_double (sqrt a))"
| "jsqrt PosInf = PosInf"
| "jsqrt NegInf = NaN"
| "jsqrt NaN = NaN"

fun jlt :: "jsnum \<Rightarrow> jsnum \<Rightarrow> bool" where
  "jlt (Num a) (Num b) = (a < b)"
| "jlt NaN _ = False"
| "jlt _ NaN = False"
| "jlt NegInf NegInf = False"
| "jlt NegInf _ = True"
| "jlt _ NegInf = False"
| "jlt PosInf _ = False"
| "jlt _ PosInf = True"

text \<open>
  A real is representable when rounding leaves it as it is: the finite doubles.
\<close>

definition representable :: "real \<Rightarrow> bool" where
  "representable r = (round_double r = Num r)"

section \<open>The molecule viewer: data\<close>

text \<open>The interfaces \<^verbatim>\<open>Atom\<close> and \<^verbatim>\<open>Bond\<close> of the viewer, and the pair that
  \<^verbatim>\<open>parseMoleculeData\<close> returns.\<close>

record atom =
  element :: string
  x :: jsnum
  y :: jsnum
  z :: jsnum

record bond =
  atom1 :: nat
  atom2 :: nat
  order :: nat

record molecule =
  atoms :: "atom list"
  bonds :: "bond list"

section \<open>Bond generation by distance\<close>

text \<open>
  \<^verbatim>\<open>parseMoleculeData\<close> contains the same pair of nested loops twice, once over the caller's
  atoms and once over the atoms parsed from the structure text:
  \<^verbatim>\<open>
    const bonds: Bond[] = [];
    for (let i = 0; i < atoms.length; i++) {
      for (let j = i + 1; j < atoms.length; j++) {
        const dx = atoms[i].x - atoms[j].x;
        const dy = atoms[i].y - atoms[j].y;
        const dz = atoms[i].z - atoms[j].z;
        const distance = Math.sqrt(dx * dx + dy * dy + dz * dz);
        if (distance < 1.9) {
          bonds.push({ atom1: i, atom2: j, order: 1 });
        }
      }
    }
  \<close>
  \<open>distance_test\<close> is the body's test, \<open>inner_loop\<close> the loop over \<open>j\<close> and \<open>outer_loop\<close> the
  loop over \<open>i\<close>; \<open>bs\<close> is the array \<^verbatim>\<open>bonds\<close>, with \<^verbatim>\<open>push\<close> appending at the end. The
  specification calls the pass \<open>inferBonds\<close>.
\<close>

definition distance_test :: "atom \<Rightarrow> atom \<Rightarrow> bool" where
  "distance_test p q =
     (let dx = jsub (x p) (x q);
          dy = jsub (y p) (y q);
          dz = jsub (z p) (z q);
          distance = jsqrt (jadd (jadd (jmul dx dx) (jmul dy dy)) (jmul dz dz))
      in jlt distance (round_double 1.9))"

function inner_loop :: "atom list \<Rightarrow> nat \<Rightarrow> nat \<Rightarrow> bond list \<Rightarrow> bond list" where
  "inner_loop ats i j bs =
     (if j < length ats then
        inner_loop ats i (j + 1)
          (if distance_test (ats ! i) (ats ! j)
           then bs @ [\<lparr>atom1 = i, atom2 = j, order = 1\<rparr>] else bs)
      else bs)"
  by pat_completeness auto
termination
  by (relation "measure (\<lambda>(ats, i, j, bs). length ats - j)") auto

function outer_loop :: "atom list \<Rightarrow> nat \<Rightarrow> bond list \<Rightarrow> bond list" where
  "outer_loop ats i bs =
     (if i < length ats then outer_loop ats (i + 1) (inner_loop ats i (i + 1) bs) else bs)"
  by pat_completeness auto
termination
  by (relation "measure (\<lambda>(ats, i, bs). length ats - i)") auto

declare inner_loop.simps [simp del] outer_loop.simps [simp del]

definition inferBonds :: "atom list \<Rightarrow> bond list" where
  "inferBonds ats = outer_loop ats 0 []"

text \<open>
  The specification's wording of the test, over the reals: the Euclidean distance between
  the two positions is strictly below 1.9. An atom with a coordinate that is not finite
  has no position.
\<close>

definition euclidean_distance :: "real \<times> real \<times> real \<Rightarrow> real \<times> real \<times> real \<Rightarrow> real" where
  "euclidean_distance p q =
     (case p of (px, py, pz) \<Rightarrow>
        (case q of (qx, qy, qz) \<Rightarrow>
           sqrt ((px - qx)\<^sup>2 + (py - qy)\<^sup>2 + (pz - qz)\<^sup>2)))"

definition finite_position :: "atom \<Rightarrow> (real \<times> real \<times> real) option" where
  "finite_position p =
     (case x p of
        Num px \<Rightarrow>
          (case y p of
             Num py \<Rightarrow> (case z p of Num pz \<Rightarrow> Some (px, py, pz) | _ \<Rightarrow> None)
           | _ \<Rightarrow> None)
      | _ \<Rightarrow> None)"

definition within_bonding_threshold :: "atom \<Rightarrow> atom \<Rightarrow> bool" where
  "within_bonding_threshold p q =
     (case finite_position p of
        None \<Rightarrow> False
      | Some pp \<Rightarrow>
          (case finite_position q of None \<Rightarrow> False | Some qq \<Rightarrow> euclidean_distance pp qq < 1.9))"

section \<open>Strings of the host language\<close>

text \<open>
  A \<^verbatim>\<open>string\<close> of the source is a list of characters; a character stands for the code unit
  of the same number, so the model covers the code units below 256. The methods used by
  the parser: \<^verbatim>\<open>split('\n')\<close>, \<^verbatim>\<open>startsWith\<close>, \<^verbatim>\<open>substring\<close> (whose arguments are clamped to
  the length and swapped when out of order), \<^verbatim>\<open>trim\<close> and the global \<^verbatim>\<open>parseFloat\<close>.
\<close>

fun split_on :: "char \<Rightarrow> string \<Rightarrow> string list" where
  "split_on sep [] = [[]]"
| "split_on sep (c # cs) =
     (if c = sep then [] # split_on sep cs
      else (case split_on sep cs of
              [] \<Rightarrow> [[c]]
            | l # ls \<Rightarrow> (c # l) # ls))"

definition startsWith :: "string \<Rightarrow> string \<Rightarrow> bool" where
  "startsWith s p = (take (length p) s = p)"

definition substring :: "string \<Rightarrow> nat \<Rightarrow> nat \<Rightarrow> string" where
  "substring s a b =
     (let a' = min a (length s); b' = min b (length s);
          lo = min a' b'; hi = max a' b'
      in take (hi - lo) (drop lo s))"

definition is_whitespace :: "char \<Rightarrow> bool" where
  "is_whitespace c = ((of_char c :: nat) \<in> {9, 10, 11, 12, 13, 32, 160})"

definition trim :: "string \<Rightarrow> string" where
  "trim s = rev (dropWhile is_whitespace (rev (dropWhile is_whitespace s)))"

definition is_digit :: "char \<Rightarrow> bool" where
  "is_digit c = (48 \<le> (of_char c :: nat) \<and> (of_char c :: nat) \<le> 57)"

definition digits_value :: "string \<Rightarrow> nat" where
  "digits_value ds = foldl (\<lambda>n c. 10 * n + ((of_char c :: nat) - 48)) 0 ds"

fun read_sign :: "string \<Rightarrow> int \<times> string" where
  "read_sign [] = (1, [])"
| "read_sign (c # cs) =
     (if c = CHR ''-'' then (- 1, cs) else if c = CHR ''+'' then (1, cs) else (1, c # cs))"

definition read_exponent :: "string \<Rightarrow> int" where
  "read_exponent r =
     (case r of
        [] \<Rightarrow> 0
      | c # cs \<Rightarrow>
          if c = CHR ''e'' \<or> c = CHR ''E'' then
            (case read_sign cs of (sg, ds) \<Rightarrow>
               if takeWhile is_digit ds = [] then 0
               else sg * int (digits_value (takeWhile is_digit ds)))
          else 0)"

text \<open>
  \<^verbatim>\<open>parseFloat\<close>: skip leading white space, read the longest prefix that is a decimal
  literal (a sign, then \<^verbatim>\<open>Infinity\<close> or digits with an optional fraction and an optional
  exponent of at least one digit) and ignore what follows; \<^verbatim>\<open>NaN\<close> when no such prefix
  exists. The value is the double nearest to the literal's decimal value. (The language
  definition lets an engine cut a literal of more than 20 significant digits down to 20
  before rounding; that freedom is not modelled.)
\<close>

definition parseFloat :: "string \<Rightarrow> jsnum" where
  "parseFloat s =
     (case read_sign (dropWhile is_whitespace s) of (sg, u) \<Rightarrow>
        if take 8 u = ''Infinity'' then (if sg < 0 then NegInf else PosInf)
        else
          let ip = takeWhile is_digit u;
              r1 = dropWhile is_digit u;
              has_point = (case r1 of [] \<Rightarrow> False | c # cs \<Rightarrow> c = CHR ''.'');
              fp = (if has_point then takeWhile is_digit (tl r1) else []);
              r2 = (if has_point then dropWhile is_digit (tl r1) else r1)
          in if ip = [] \<and> fp = [] then NaN
             else round_double
                    (real_of_int sg
                     * (real (digits_value ip) + real (digits_value fp) / 10 ^ length fp)
                     * 10 powi read_exponent r2))"

section \<open>Parsing the molecule data\<close>

text \<open>
  The loop over the lines of the structure text, with \<open>parsedAtoms\<close> the array the source
  pushes to:
  \<^verbatim>\<open>
    for (const line of lines) {
      if (line.startsWith('ATOM') || line.startsWith('HETATM')) {
        const element = line.substring(76, 78).trim() || line.substring(12, 14).trim();
        const x = parseFloat(line.substring(30, 38));
        const y = parseFloat(line.substring(38, 46));
        const z = parseFloat(line.substring(46, 54));
        parsedAtoms.push({ element, x, y, z });
      }
    }
  \<close>
  A string is falsy exactly when it is empty, which decides the \<^verbatim>\<open>||\<close> of the element symbol
  and the test \<^verbatim>\<open>if (pdbData)\<close>; an array is always truthy, so \<^verbatim>\<open>if (atoms)\<close> asks whether
  the argument is there.
\<close>

fun parse_lines :: "string list \<Rightarrow> atom list \<Rightarrow> atom list" where
  "parse_lines [] parsedAtoms = parsedAtoms"
| "parse_lines (line # lines) parsedAtoms =
     (if startsWith line ''ATOM'' \<or> startsWith line ''HETATM'' then
        parse_lines lines
          (parsedAtoms @
            [\<lparr>element =
                (if trim (substring line 76 78) \<noteq> [] then trim (substring line 76 78)
                 else trim (substring line 12 14)),
              x = parseFloat (substring line 30 38),
              y = parseFloat (substring line 38 46),
              z = parseFloat (substring line 46 54)\<rparr>])
      else parse_lines lines parsedAtoms)"

definition demoAtoms :: "atom list" where
  "demoAtoms =
     [\<lparr>element = ''C'', x = Num 0, y = Num 0, z = Num 0\<rparr>,
      \<lparr>element = ''C'', x = round_double 1.4, y = Num 0, z = Num 0\<rparr>,
      \<lparr>element = ''N'', x = round_double 2.1, y = round_double 1.2, z = Num 0\<rparr>,
      \<lparr>element = ''C'', x = round_double 1.4, y = round_double 2.4, z = Num 0\<rparr>,
      \<lparr>element = ''C'', x = Num 0, y = round_double 2.4, z = Num 0\<rparr>,
      \<lparr>element = ''N'', x = round_double (- 0.7), y = round_double 1.2, z = Num 0\<rparr>,
      \<lparr>element = ''O'', x = round_double 2.1, y = round_double (- 1.2), z = Num 0\<rparr>,
      \<lparr>element = ''N'', x = round_double (- 0.7), y = round_double 3.6, z = Num 0\<rparr>,
      \<lparr>element = ''C'', x = Num 0, y = round_double 4.8, z = Num 0\<rparr>,
      \<lparr>element = ''N'', x = round_double 1.4, y = round_double 4.8, z = Num 0\<rparr>,
      \<lparr>element = ''C'', x = round_double 2.1, y = round_double 3.6, z = Num 0\<rparr>,
      \<lparr>element = ''O'', x = round_double 3.3, y = round_double 3.6, z = Num 0\<rparr>]"

definition demoBonds :: "bond list" where
  "demoBonds =
     [\<lparr>atom1 = 0, atom2 = 1, order = 1\<rparr>,
      \<lparr>atom1 = 1, atom2 = 2, order = 1\<rparr>,
      \<lparr>atom1 = 2, atom2 = 3, order = 1\<rparr>,
      \<lparr>atom1 = 3, atom2 = 4, order = 2\<rparr>,
      \<lparr>atom1 = 4, atom2 = 5, order = 1\<rparr>,
      \<lparr>atom1 = 5, atom2 = 0, order = 2\<rparr>,
      \<lparr>atom1 = 1, atom2 = 6, order = 2\<rparr>,
      \<lparr>atom1 = 4, atom2 = 7, order = 1\<rparr>,
      \<lparr>atom1 = 7, atom2 = 8, order = 1\<rparr>,
      \<lparr>atom1 = 8, atom2 = 9, order = 2\<rparr>,
      \<lparr>atom1 = 9, atom2 = 10, order = 1\<rparr>,
      \<lparr>atom1 = 10, atom2 = 3, order = 1\<rparr>,
      \<lparr>atom1 = 10, atom2 = 11, order = 2\<rparr>]"

definition parseMoleculeData :: "atom list option \<Rightarrow> string option \<Rightarrow> molecule" where
  "parseMoleculeData atoms_arg pdbData_arg =
     (case atoms_arg of
        Some ats \<Rightarrow> \<lparr>atoms = ats, bonds = inferBonds ats\<rparr>
      | None \<Rightarrow>
          (case pdbData_arg of
             Some (c # cs) \<Rightarrow>
               (let parsedAtoms = parse_lines (split_on (CHR 0x0A) (c # cs)) []
                in \<lparr>atoms = parsedAtoms, bonds = inferBonds parsedAtoms\<rparr>)
           | _ \<Rightarrow> \<lparr>atoms = demoAtoms, bonds = demoBonds\<rparr>))"

text \<open>
  The specification's wording of the parser: one atom per line that starts with one of the
  two record types, its fields read from the fixed columns.
\<close>

definition is_atom_record :: "string \<Rightarrow> bool" where
  "is_atom_record line = (take 4 line = ''ATOM'' \<or> take 6 line = ''HETATM'')"

definition columns :: "nat \<Rightarrow> nat \<Rightarrow> string \<Rightarrow> string" where
  "columns a b line = take (b - a) (drop a line)"

definition atom_of_record :: "string \<Rightarrow> atom" where
  "atom_of_record line =
     \<lparr>element = (if trim (columns 76 78 line) = [] then trim (columns 12 14 line)
                 else trim (columns 76 78 line)),
      x = parseFloat (columns 30 38 line),
      y = parseFloat (columns 38 46 line),
      z = parseFloat (columns 46 54 line)\<rparr>"

definition record_atoms :: "string \<Rightarrow> atom list" where
  "record_atoms text = map atom_of_record (filter is_atom_record (split_on (CHR 0x0A) text))"

section \<open>Building the scene\<close>

text \<open>
  The tables \<^verbatim>\<open>ATOM_COLORS\<close> and \<^verbatim>\<open>ATOM_RADII\<close> are object literals. A lookup
  \<^verbatim>\<open>TABLE[element] || TABLE.default\<close> yields the table's entry when it has one that is
  truthy and the entry \<^verbatim>\<open>default\<close> when it has none; for an element named like a property
  that every object inherits (\<^verbatim>\<open>constructor\<close>, \<^verbatim>\<open>toString\<close>, ...) it yields that inherited
  function or object, which is truthy and not a number. A number is falsy when it is zero
  or \<^verbatim>\<open>NaN\<close>.
\<close>

definition ATOM_COLORS :: "(string \<times> nat) list" where
  "ATOM_COLORS =
     [(''C'', 0x909090), (''N'', 0x3050f8), (''O'', 0xff0d0d), (''H'', 0xffffff),
      (''S'', 0xffff30), (''P'', 0xff8000), (''F'', 0x90e050), (''Cl'', 0x1ff01f),
      (''Br'', 0xa62929), (''I'', 0x940094), (''default'', 0xff69b4)]"

definition ATOM_RADII :: "(string \<times> jsnum) list" where
  "ATOM_RADII =
     [(''C'', round_double 0.77), (''N'', round_double 0.75), (''O'', round_double 0.73),
      (''H'', round_double 0.37), (''S'', round_double 1.02), (''P'', round_double 1.06),
      (''default'', round_double 0.8)]"

definition object_prototype_names :: "string list" where
  "object_prototype_names =
     [''constructor'', ''hasOwnProperty'', ''isPrototypeOf'', ''propertyIsEnumerable'',
      ''toLocaleString'', ''toString'', ''valueOf'', ''__proto__'', ''__defineGetter__'',
      ''__defineSetter__'', ''__lookupGetter__'', ''__lookupSetter__'']"

datatype 'v looked_up = Entry 'v | Inherited

definition lookup_or_default :: "('v \<Rightarrow> bool) \<Rightarrow> (string \<times> 'v) list \<Rightarrow> string \<Rightarrow> 'v looked_up" where
  "lookup_or_default truthy table key =
     (case map_of table key of
        Some v \<Rightarrow> if truthy v then Entry v else Entry (the (map_of table ''default''))
      | None \<Rightarrow>
          if key \<in> set object_prototype_names then Inherited
          else Entry (the (map_of table ''default'')))"

fun number_truthy :: "jsnum \<Rightarrow> bool" where
  "number_truthy (Num r) = (r \<noteq> 0)"
| "number_truthy NaN = False"
| "number_truthy PosInf = True"
| "number_truthy NegInf = True"

datatype style = BallStick | SpaceFill | Wireframe

text \<open>
  The properties of the component that reach the scene. \<^verbatim>\<open>atoms\<close> and \<^verbatim>\<open>bonds\<close> are bound to
  \<open>inputAtoms\<close> and \<open>inputBonds\<close> by the component's parameter list; \<^verbatim>\<open>style\<close> defaults to
  \<^verbatim>\<open>'ball-stick'\<close>. The background colour, the rotation speed and the callbacks do not
  influence which meshes are built.
\<close>

record props =
  inputAtoms :: "atom list option"
  inputBonds :: "bond list option"
  smiles :: "string option"
  pdbData :: "string option"
  style :: "style option"

type_synonym vector3 = "jsnum \<times> jsnum \<times> jsnum"

text \<open>
  A sphere is built with its radius, the colour handed to its material (a number of the
  table, or the inherited value) and its position; a cylinder between its two end points.
  An inherited function times the style's factor is \<^verbatim>\<open>NaN\<close>.
\<close>

record sphere_mesh =
  radius :: jsnum
  color :: "nat looked_up"
  mesh_position :: vector3

record cylinder_mesh =
  bond_start :: vector3
  bond_end :: vector3

record scene =
  spheres :: "sphere_mesh list"
  cylinders :: "cylinder_mesh list"

datatype js_error = TypeError

text \<open>
  The loop over the bonds. \<^verbatim>\<open>atoms[bond.atom1]\<close> is \<^verbatim>\<open>undefined\<close> for an index outside the
  array, and reading \<^verbatim>\<open>.x\<close> of it throws a \<^verbatim>\<open>TypeError\<close>, which the \<^verbatim>\<open>catch\<close> of
  \<^verbatim>\<open>onContextCreate\<close> hands to \<^verbatim>\<open>onError\<close> before the group of meshes is added to the scene.
\<close>

fun bond_meshes :: "atom list \<Rightarrow> vector3 \<Rightarrow> bond list \<Rightarrow> js_error + cylinder_mesh list" where
  "bond_meshes ats c [] = Inr []"
| "bond_meshes ats c (b # bs) =
     (if atom1 b < length ats \<and> atom2 b < length ats then
        (case c of (centerX, centerY, centerZ) \<Rightarrow>
           (case bond_meshes ats c bs of
              Inl e \<Rightarrow> Inl e
            | Inr ms \<Rightarrow>
                Inr (\<lparr>bond_start = (jsub (x (ats ! atom1 b)) centerX,
                                    jsub (y (ats ! atom1 b)) centerY,
                                    jsub (z (ats ! atom1 b)) centerZ),
                      bond_end = (jsub (x (ats ! atom2 b)) centerX,
                                  jsub (y (ats ! atom2 b)) centerY,
                                  jsub (z (ats ! atom2 b)) centerZ)\<rparr> # ms)))
      else Inl TypeError)"

definition center_of :: "atom list \<Rightarrow> vector3" where
  "center_of ats =
     (jdiv (foldl (\<lambda>centerX a. jadd centerX (x a)) (Num 0) ats) (Num (real (length ats))),
      jdiv (foldl (\<lambda>centerY a. jadd centerY (y a)) (Num 0) ats) (Num (real (length ats))),
      jdiv (foldl (\<lambda>centerZ a. jadd centerZ (z a)) (Num 0) ats) (Num (real (length ats))))"

definition atom_mesh :: "style \<Rightarrow> vector3 \<Rightarrow> atom \<Rightarrow> sphere_mesh" where
  "atom_mesh sty c a =
     (case c of (centerX, centerY, centerZ) \<Rightarrow>
        \<lparr>radius =
           (case lookup_or_default number_truthy ATOM_RADII (element a) of
              Entry r \<Rightarrow> jmul r (if sty = SpaceFill then Num 1.5 else round_double 0.4)
            | Inherited \<Rightarrow> NaN),
         color = lookup_or_default (\<lambda>n. n \<noteq> 0) ATOM_COLORS (element a),
         mesh_position = (jsub (x a) centerX, jsub (y a) centerY, jsub (z a) centerZ)\<rparr>)"

definition onContextCreate :: "props \<Rightarrow> js_error + scene" where
  "onContextCreate p =
     (let m = parseMoleculeData (inputAtoms p) (pdbData p);
          sty = (case style p of None \<Rightarrow> BallStick | Some s \<Rightarrow> s);
          c = center_of (atoms m);
          atom_meshes = map (atom_mesh sty c) (atoms m)
      in if sty \<noteq> SpaceFill then
           (case bond_meshes (atoms m) c (bonds m) of
              Inl e \<Rightarrow> Inl e
            | Inr ms \<Rightarrow> Inr \<lparr>spheres = atom_meshes, cylinders = ms\<rparr>)
         else Inr \<lparr>spheres = atom_meshes, cylinders = []\<rparr>)"

text \<open>
  Translating every atom by the same vector, as a caller does it: each coordinate plus the
  component, rounded like every sum. The statement about centring needs it, and the
  conditions, one axis at a time, under which no operation of the translation and the
  centring rounds: the component and the coordinates are doubles, and every translated
  coordinate, every partial sum of the coordinates before and after the translation, and
  both centroids are representable.
\<close>

definition translate :: "real \<times> real \<times> real \<Rightarrow> atom \<Rightarrow> atom" where
  "translate v a =
     (case v of (vx, vy, vz) \<Rightarrow>
        a\<lparr>x := jadd (x a) (Num vx), y := jadd (y a) (Num vy), z := jadd (z a) (Num vz)\<rparr>)"

fun sums_exact :: "real \<Rightarrow> real list \<Rightarrow> bool" where
  "sums_exact s [] = True"
| "sums_exact s (r # rs) = (representable (s + r) \<and> sums_exact (s + r) rs)"

definition axis_exact :: "real \<Rightarrow> real list \<Rightarrow> bool" where
  "axis_exact d rs =
     (representable d
      \<and> list_all representable rs
      \<and> list_all (\<lambda>r. representable (r + d)) rs
      \<and> sums_exact 0 rs
      \<and> sums_exact 0 (map (\<lambda>r. r + d) rs)
      \<and> representable (sum_list rs / real (length rs))
      \<and> representable (sum_list rs / real (length rs) + d))"

section \<open>The offline cache hook\<close>

text \<open>
  \<^verbatim>\<open>CachedData<T>\<close> is what the hook stores under a cache key (\<open>entry_data\<close> is its field
  \<^verbatim>\<open>data\<close>). The entry goes through \<^verbatim>\<open>JSON.stringify\<close> and \<^verbatim>\<open>JSON.parse\<close>: the data and the
  integer timestamp are taken to come back as they were, a finite \<^verbatim>\<open>ttl\<close> comes back as
  it was, and a \<^verbatim>\<open>ttl\<close> that is not finite comes back as \<^verbatim>\<open>null\<close> (\<open>None\<close>), which a
  comparison reads as 0. A stored entry is a non-empty string, hence truthy. The state
  of the hook is its five \<^verbatim>\<open>useState\<close> cells and the reference \<^verbatim>\<open>isMounted\<close>.
\<close>

record 'a cached_data =
  entry_data :: 'a
  timestamp :: int
  ttl :: "real option"

record ('a, 'e) hook_state =
  data :: "'a option"
  isLoading :: bool
  isStale :: bool
  isOffline :: bool
  error :: "'e option"

definition initial_state :: "('a, 'e) hook_state" where
  "initial_state =
     \<lparr>data = None, isLoading = True, isStale = False, isOffline = False, error = None\<rparr>"

record cache_options =
  opt_ttl :: "jsnum option"
  opt_staleWhileRevalidate :: "bool option"
  opt_syncOnReconnect :: "bool option"

definition DEFAULT_TTL :: jsnum where
  "DEFAULT_TTL = Num (5 * 60 * 1000)"

definition ttl_of :: "cache_options \<Rightarrow> jsnum" where
  "ttl_of options = (case opt_ttl options of None \<Rightarrow> DEFAULT_TTL | Some t \<Rightarrow> t)"

definition staleWhileRevalidate :: "cache_options \<Rightarrow> bool" where
  "staleWhileRevalidate options =
     (case opt_staleWhileRevalidate options of None \<Rightarrow> True | Some b \<Rightarrow> b)"

fun json_number :: "jsnum \<Rightarrow> real option" where
  "json_number (Num r) = Some r"
| "json_number PosInf = None"
| "json_number NegInf = None"
| "json_number NaN = None"

definition CACHE_PREFIX :: string where
  "CACHE_PREFIX = ''offline_cache_''"

definition cacheKey :: "string \<Rightarrow> string" where
  "cacheKey key = CACHE_PREFIX @ key"

text \<open>
  What one run of \<^verbatim>\<open>loadCachedData\<close> meets, in the order of its steps: whether reading the
  store fails (\<^verbatim>\<open>getItem\<close> rejects or \<^verbatim>\<open>JSON.parse\<close> throws), the clock, how the awaited
  \<^verbatim>\<open>fetcher()\<close> settles (\<open>Inl\<close> a rejection, \<open>Inr\<close> the value), the clock when the entry is
  built, and whether writing the store fails (\<^verbatim>\<open>JSON.stringify\<close> throws or \<^verbatim>\<open>setItem\<close>
  rejects). While the run waits for the store or the fetcher, the cleanup of the effect
  may run (the component unmounts or its key changes) and set \<^verbatim>\<open>isMounted.current\<close> to
  false; and the network listener may report the device offline or online, which writes
  the cell \<open>isOffline\<close>.
\<close>

record ('a, 'e) read_env =
  cache_read_error :: "'e option"
  cleanup_during_load :: bool
  now_at_load :: int
  fetcher_outcome :: "'e + 'a"
  cleanup_during_fetch :: bool
  now_at_store :: int
  cache_write_error :: "'e option"
  cleanup_during_write :: bool
  reported_offline :: "bool option"

record ('a, 'e) read_result =
  state :: "('a, 'e) hook_state"
  storage :: "string \<Rightarrow> 'a cached_data option"
  fetcher_calls :: nat
  isMounted :: bool

text \<open>
  \<^verbatim>\<open>fetchAndCache\<close> is a closure of one render: where it reads \<^verbatim>\<open>isOffline\<close> and \<^verbatim>\<open>data\<close> in
  its \<^verbatim>\<open>catch\<close>, it reads the values of that render (\<open>captured\<close>), not the cells (\<open>st\<close>).
  \<open>truthy\<close> is the truthiness of a value of the type \<^verbatim>\<open>T\<close>, and \<open>mounted\<close> the value of
  \<^verbatim>\<open>isMounted.current\<close> when the function starts. The setters are guarded by
  \<^verbatim>\<open>isMounted.current\<close> where the source guards them; the first two are not. The cache
  write is inside the \<^verbatim>\<open>try\<close>, so its failure is caught like the fetcher's.
\<close>

definition on_catch ::
  "('a \<Rightarrow> bool) \<Rightarrow> ('a, 'e) hook_state \<Rightarrow> bool \<Rightarrow> 'e \<Rightarrow> ('a, 'e) hook_state \<Rightarrow> ('a, 'e) hook_state" where
  "on_catch truthy captured mounted err st =
     (if isOffline captured \<and> (case data captured of None \<Rightarrow> False | Some d \<Rightarrow> truthy d)
      then (if mounted then st\<lparr>isStale := True\<rparr> else st)
      else (if mounted then st\<lparr>error := Some err\<rparr> else st))"

definition on_finally :: "bool \<Rightarrow> ('a, 'e) hook_state \<Rightarrow> ('a, 'e) hook_state" where
  "on_finally mounted st = (if mounted then st\<lparr>isLoading := False\<rparr> else st)"

definition fetchAndCache ::
  "string \<Rightarrow> cache_options \<Rightarrow> ('a \<Rightarrow> bool) \<Rightarrow> ('a, 'e) hook_state \<Rightarrow> ('a, 'e) read_env \<Rightarrow>
   bool \<Rightarrow> ('a, 'e) hook_state \<Rightarrow> (string \<Rightarrow> 'a cached_data option) \<Rightarrow> ('a, 'e) read_result" where
  "fetchAndCache key options truthy captured env mounted st store =
     (let st1 = st\<lparr>isLoading := True, error := None\<rparr>;
          mounted2 = (mounted \<and> \<not> cleanup_during_fetch env)
      in case fetcher_outcome env of
           Inr freshData \<Rightarrow>
             (let st2 = (if mounted2
                         then st1\<lparr>data := Some freshData, isStale := False, error := None\<rparr>
                         else st1);
                  cacheEntry = \<lparr>entry_data = freshData, timestamp = now_at_store env,
                                ttl = json_number (ttl_of options)\<rparr>;
                  mounted3 = (mounted2 \<and> \<not> cleanup_during_write env)
              in case cache_write_error env of
                   None \<Rightarrow>
                     \<lparr>state = on_finally mounted3 st2,
                      storage = store(cacheKey key \<mapsto> cacheEntry),
                      fetcher_calls = 1,
                      isMounted = mounted3\<rparr>
                 | Some err \<Rightarrow>
                     \<lparr>state = on_finally mounted3 (on_catch truthy captured mounted3 err st2),
                      storage = store,
                      fetcher_calls = 1,
                      isMounted = mounted3\<rparr>)
         | Inl err \<Rightarrow>
             \<lparr>state = on_finally mounted2 (on_catch truthy captured mounted2 err st1),
              storage = store,
              fetcher_calls = 1,
              isMounted = mounted2\<rparr>)"

text \<open>
  \<^verbatim>\<open>loadCachedData\<close>. A report of the network listener that arrives during the run is
  written to the cell \<open>isOffline\<close> (the listener's setter is not guarded); nothing in the
  run reads that cell.
\<close>

definition report_network :: "('a, 'e) read_env \<Rightarrow> ('a, 'e) hook_state \<Rightarrow> ('a, 'e) hook_state" where
  "report_network env st =
     (case reported_offline env of None \<Rightarrow> st | Some b \<Rightarrow> st\<lparr>isOffline := b\<rparr>)"

definition loadCachedData ::
  "string \<Rightarrow> cache_options \<Rightarrow> ('a \<Rightarrow> bool) \<Rightarrow> ('a, 'e) hook_state \<Rightarrow> ('a, 'e) read_env \<Rightarrow>
   bool \<Rightarrow> ('a, 'e) hook_state \<Rightarrow> (string \<Rightarrow> 'a cached_data option) \<Rightarrow> ('a, 'e) read_result" where
  "loadCachedData key options truthy captured env mounted st0 store =
     (let st = report_network env st0;
          mounted1 = (mounted \<and> \<not> cleanup_during_load env)
      in case cache_read_error env of
           Some err \<Rightarrow>
             \<lparr>state = (if mounted1 then st\<lparr>error := Some err, isLoading := False\<rparr> else st),
              storage = store,
              fetcher_calls = 0,
              isMounted = mounted1\<rparr>
         | None \<Rightarrow>
             (case store (cacheKey key) of
                None \<Rightarrow> fetchAndCache key options truthy captured env mounted1 st store
              | Some parsedCache \<Rightarrow>
                  (let isExpired =
                         (real_of_int (now_at_load env - timestamp parsedCache)
                            > (case ttl parsedCache of None \<Rightarrow> 0 | Some t \<Rightarrow> t))
                   in if \<not> isExpired then
                        \<lparr>state = (if mounted1
                                   then st\<lparr>data := Some (entry_data parsedCache),
                                           isStale := False, isLoading := False\<rparr>
                                   else st),
                         storage = store,
                         fetcher_calls = 0,
                         isMounted = mounted1\<rparr>
                      else if staleWhileRevalidate options then
                        fetchAndCache key options truthy captured env mounted1
                          (if mounted1
                           then st\<lparr>data := Some (entry_data parsedCache), isStale := True\<rparr>
                           else st)
                          store
                      else fetchAndCache key options truthy captured env mounted1 st store)))"

text \<open>
  The effect \<^verbatim>\<open>useEffect(() => { loadCachedData(); return () => { isMounted.current =
  false; }; }, [key])\<close> runs \<^verbatim>\<open>loadCachedData\<close> when the component mounts and again whenever
  its key changes. At the mount the reference is true (its initial value) and the closure
  and the cells are those of the first render. Before the run for a new key, the cleanup
  of the previous run has set the reference to false, and no line of the hook sets it
  to true again; the closure is that of the render with the new key, which sees the cells
  as they are.
\<close>

definition mount ::
  "string \<Rightarrow> cache_options \<Rightarrow> ('a \<Rightarrow> bool) \<Rightarrow> ('a, 'e) read_env \<Rightarrow>
   (string \<Rightarrow> 'a cached_data option) \<Rightarrow> ('a, 'e) read_result" where
  "mount key options truthy env store =
     loadCachedData key options truthy initial_state env True initial_state store"

definition change_key ::
  "string \<Rightarrow> cache_options \<Rightarrow> ('a \<Rightarrow> bool) \<Rightarrow> ('a, 'e) read_env \<Rightarrow>
   ('a, 'e) hook_state \<Rightarrow> (string \<Rightarrow> 'a cached_data option) \<Rightarrow> ('a, 'e) read_result" where
  "change_key key options truthy env st store =
     loadCachedData key options truthy st env False st store"

section \<open>The queue of pending operations\<close>

text \<open>
  \<^verbatim>\<open>PendingSyncOperation\<close>, with \<open>op_id\<close>, \<open>op_type\<close>, \<open>op_data\<close> and \<open>op_timestamp\<close> for its
  fields \<^verbatim>\<open>id\<close>, \<^verbatim>\<open>type\<close>, \<^verbatim>\<open>data\<close> and \<^verbatim>\<open>timestamp\<close>. The item stored under
  \<^verbatim>\<open>PENDING_SYNC_KEY\<close> is \<open>None\<close> when the key is absent and the list otherwise. A call of
  \<^verbatim>\<open>fetch\<close> either resolves to a response, of which the code reads \<^verbatim>\<open>response.ok\<close>, or throws;
  the backend it talks to is a state \<open>'w\<close> that each request may change.
\<close>

datatype http_method = POST | PUT | DELETE

record 'd pending_op =
  op_id :: string
  op_type :: http_method
  endpoint :: string
  op_data :: 'd
  op_timestamp :: int

datatype fetch_outcome = Response bool | Rejected

record ('w, 'd) sync_result =
  world :: 'w
  pending_store :: "'d pending_op list option"
  requests :: "'d pending_op list"

text \<open>
  \<^verbatim>\<open>queueOfflineOperation\<close>: the new identifier (built from the clock and a random number)
  and the clock are given.
\<close>

definition queueOfflineOperation ::
  "string \<Rightarrow> int \<Rightarrow> http_method \<times> string \<times> 'd \<Rightarrow> 'd pending_op list option \<Rightarrow>
   'd pending_op list option" where
  "queueOfflineOperation new_id now operation pendingJson =
     (case operation of (ty, ep, d) \<Rightarrow>
        Some ((case pendingJson of None \<Rightarrow> [] | Some pending \<Rightarrow> pending)
              @ [\<lparr>op_id = new_id, op_type = ty, endpoint = ep, op_data = d,
                  op_timestamp = now\<rparr>]))"

text \<open>
  The loop of \<^verbatim>\<open>syncPendingOperations\<close>; \<open>remaining\<close> is the array of the source and \<open>sent\<close>
  records the requests in the order they are made.
\<close>

fun sync_loop ::
  "('w \<Rightarrow> 'd pending_op \<Rightarrow> fetch_outcome \<times> 'w) \<Rightarrow> 'w \<Rightarrow> 'd pending_op list \<Rightarrow>
   'd pending_op list \<Rightarrow> 'd pending_op list \<Rightarrow> 'w \<times> 'd pending_op list \<times> 'd pending_op list" where
  "sync_loop fetch w [] remaining sent = (w, remaining, sent)"
| "sync_loop fetch w (operation # pending) remaining sent =
     (case fetch w operation of
        (Response ok, w') \<Rightarrow>
          if \<not> ok then sync_loop fetch w' pending (remaining @ [operation]) (sent @ [operation])
          else sync_loop fetch w' pending remaining (sent @ [operation])
      | (Rejected, w') \<Rightarrow>
          sync_loop fetch w' pending (remaining @ [operation]) (sent @ [operation]))"

definition syncPendingOperations ::
  "('w \<Rightarrow> 'd pending_op \<Rightarrow> fetch_outcome \<times> 'w) \<Rightarrow> 'w \<Rightarrow> 'd pending_op list option \<Rightarrow>
   ('w, 'd) sync_result" where
  "syncPendingOperations fetch w pendingJson =
     (case pendingJson of
        None \<Rightarrow> \<lparr>world = w, pending_store = None, requests = []\<rparr>
      | Some pending \<Rightarrow>
          (case sync_loop fetch w pending [] [] of
             (w', remaining, sent) \<Rightarrow>
               \<lparr>world = w',
                pending_store = (if length remaining > 0 then Some remaining else None),
                requests = sent\<rparr>))"

text \<open>
  The outcomes of the requests for a list of operations, sent one after the other, and the
  operations among them that did not get a successful response.
\<close>

fun outcomes ::
  "('w \<Rightarrow> 'd pending_op \<Rightarrow> fetch_outcome \<times> 'w) \<Rightarrow> 'w \<Rightarrow> 'd pending_op list \<Rightarrow> fetch_outcome list" where
  "outcomes fetch w [] = []"
| "outcomes fetch w (operation # pending) =
     (case fetch w operation of (r, w') \<Rightarrow> r # outcomes fetch w' pending)"

definition failed_operations ::
  "('w \<Rightarrow> 'd pending_op \<Rightarrow> fetch_outcome \<times> 'w) \<Rightarrow> 'w \<Rightarrow> 'd pending_op list \<Rightarrow> 'd pending_op list" where
  "failed_operations fetch w pending =
     map fst (filter (\<lambda>(operation, r). r \<noteq> Response True) (zip pending (outcomes fetch w pending)))"

section \<open>Example inputs\<close>

text \<open>
  A structure text of four lines. The first atom record is a full line of 80 columns; the
  second stops after the coordinates, so that its element symbol comes from columns 12 and
  13. The two atoms are one length unit apart.
\<close>

definition pdb_snippet :: string where
  "pdb_snippet =
     ''HEADER    LIGAND FRAGMENT'' @ [CHR 0x0A] @
     ''ATOM      1  N   ALA A   1      11.104   6.134  -6.504  1.00  0.00           N  '' @ [CHR 0x0A] @
     ''HETATM    2  CA  LIG A   2      12.104   6.134  -6.504'' @ [CHR 0x0A] @
     ''END''"

text \<open>
  Two atoms whose coordinates are doubles and whose distance is a little below 1.9: the
  second is at \<^verbatim>\<open>(1.1661903789690597, 1.5, 0)\<close>, the first coordinate being the double
  \<open>5252054556168115 / 2 ^ 52\<close> that this literal denotes.
\<close>

definition close_pair :: "atom list" where
  "close_pair =
     [\<lparr>element = ''C'', x = Num 0, y = Num 0, z = Num 0\<rparr>,
      \<lparr>element = ''C'', x = Num (5252054556168115 / 2 ^ 52), y = Num 1.5, z = Num 0\<rparr>]"

text \<open>
  Two atoms one unit apart on the first axis, and the double nearest to 0.1, by which
  they are translated along that axis.
\<close>

definition unit_pair :: "atom list" where
  "unit_pair =
     [\<lparr>element = ''C'', x = Num 0, y = Num 0, z = Num 0\<rparr>,
      \<lparr>element = ''C'', x = Num 1, y = Num 0, z = Num 0\<rparr>]"

definition tenth :: real where
  "tenth = 3602879701896397 / 2 ^ 55"

text \<open>
  A use of the hook as the dashboard makes it (key \<^verbatim>\<open>recent_activity\<close>), here with the default
  options and a device that stays online: a store holding an entry written at time 0 with
  a time to live of one minute, a read at 90 seconds whose fetcher is rejected, one whose
  fetcher delivers, and a read half a minute after that. In none of them the store fails
  or the effect is cleaned up.
\<close>

definition default_options :: cache_options where
  "default_options =
     \<lparr>opt_ttl = None, opt_staleWhileRevalidate = None, opt_syncOnReconnect = None\<rparr>"

definition expired_store :: "string \<Rightarrow> nat cached_data option" where
  "expired_store =
     (\<lambda>k. None)(cacheKey ''recent_activity'' \<mapsto>
        \<lparr>entry_data = 7, timestamp = 0, ttl = Some 60000\<rparr>)"

definition failing_read :: "(nat, string) read_env" where
  "failing_read =
     \<lparr>cache_read_error = None, cleanup_during_load = False, now_at_load = 90000,
      fetcher_outcome = Inl ''Network request failed'', cleanup_during_fetch = False,
      now_at_store = 90001, cache_write_error = None, cleanup_during_write = False,
      reported_offline = None\<rparr>"

definition succeeding_read :: "(nat, string) read_env" where
  "succeeding_read =
     \<lparr>cache_read_error = None, cleanup_during_load = False, now_at_load = 90000,
      fetcher_outcome = Inr 8, cleanup_during_fetch = False,
      now_at_store = 90005, cache_write_error = None, cleanup_during_write = False,
      reported_offline = None\<rparr>"

definition later_read :: "(nat, string) read_env" where
  "later_read =
     \<lparr>cache_read_error = None, cleanup_during_load = False, now_at_load = 120000,
      fetcher_outcome = Inl ''Network request failed'', cleanup_during_fetch = False,
      now_at_store = 120001, cache_write_error = None, cleanup_during_write = False,
      reported_offline = None\<rparr>"

text \<open>
  The same component re-rendered five seconds later with another key
  (\<^verbatim>\<open>team_activity\<close>), under which nothing is stored; the fetcher delivers.
\<close>

definition key_change_read :: "(nat, string) read_env" where
  "key_change_read =
     \<lparr>cache_read_error = None, cleanup_during_load = False, now_at_load = 95000,
      fetcher_outcome = Inr 8, cleanup_during_fetch = False,
      now_at_store = 95004, cache_write_error = None, cleanup_during_write = False,
      reported_offline = None\<rparr>"

text \<open>
  The truthiness of a number that is the hook's data (0 is the falsy one).
\<close>

definition nat_truthy :: "nat \<Rightarrow> bool" where
  "nat_truthy n = (n \<noteq> 0)"

section \<open>Rounding to the nearest double\<close>

text \<open>
  How \<open>round_double\<close> is evaluated: a real in the binade of \<open>2 ^ e\<close> is rounded to the
  integer multiple of \<open>2 ^ (e - 52)\<close> nearest to it. The lemmas named \<open>rd_\<close> state the
  roundings that the examples below go through.
\<close>

lemma pow2_powr: "pow2 e = 2 powr (of_int e)"
  by (simp add: pow2_def powr_int)

lemma pow2_pos: "0 < pow2 e"
  by (simp add: pow2_powr)

lemma pow2_mono: "a \<le> b \<Longrightarrow> pow2 a \<le> pow2 b"
  unfolding pow2_powr by simp

lemma binade_normal:
  assumes "pow2 e \<le> \<bar>r\<bar>" and "\<bar>r\<bar> < pow2 (e + 1)" and "- 1022 \<le> e"
  shows "binade r = e"
proof -
  have pos: "0 < \<bar>r\<bar>"
    using assms(1) pow2_pos [of e] by linarith
  have "\<lfloor>log 2 \<bar>r\<bar>\<rfloor> = e"
    using assms(1,2) by (simp add: floor_log_eq_powr_iff [OF pos] pow2_powr)
  with assms(3) show ?thesis by (simp add: binade_def)
qed

lemma round_double_normal:
  assumes "pow2 e \<le> \<bar>r\<bar>" and "\<bar>r\<bar> < pow2 (e + 1)" and "- 1022 \<le> e"
    and "round_even (r / pow2 (e - 52)) = m"
    and "\<bar>of_int m * pow2 (e - 52)\<bar> < pow2 1024"
  shows "round_double r = Num (of_int m * pow2 (e - 52))"
proof -
  have "r \<noteq> 0"
    using assms(1) pow2_pos [of e] by linarith
  then show ?thesis
    using assms(4,5) by (simp add: round_double_def binade_normal [OF assms(1-3)] Let_def)
qed

lemma round_double_0: "round_double 0 = Num 0"
  by (simp add: round_double_def)

lemma round_even_of_int: "round_even (of_int m) = m"
  by (simp add: round_even_def)

lemma round_even_between:
  assumes "of_int m - 1 / 2 < r" and "r < of_int m + 1 / 2"
  shows "round_even r = m"
proof -
  have "\<lfloor>r\<rfloor> = m \<or> \<lfloor>r\<rfloor> = m - 1"
    using assms by linarith
  then show ?thesis
  proof
    assume f: "\<lfloor>r\<rfloor> = m"
    with assms show ?thesis by (simp add: round_even_def)
  next
    assume f: "\<lfloor>r\<rfloor> = m - 1"
    with assms show ?thesis by (simp add: round_even_def)
  qed
qed

lemma representable_dyadic:
  assumes "pow2 e \<le> \<bar>r\<bar>" and "\<bar>r\<bar> < pow2 (e + 1)" and "- 1022 \<le> e" and "e \<le> 1023"
    and "r / pow2 (e - 52) = of_int m"
  shows "representable r"
proof -
  have r: "r = of_int m * pow2 (e - 52)"
    using assms(5) pow2_pos [of "e - 52"] by (simp add: field_simps)
  have "pow2 (e + 1) \<le> pow2 1024"
    using assms(4) by (intro pow2_mono) simp
  with assms(2) have "\<bar>of_int m * pow2 (e - 52)\<bar> < pow2 1024"
    using r by simp
  moreover have "round_even (r / pow2 (e - 52)) = m"
    by (simp only: assms(5) round_even_of_int)
  ultimately have "round_double r = Num (of_int m * pow2 (e - 52))"
    using round_double_normal [OF assms(1-3)] by blast
  then show ?thesis by (simp only: representable_def r [symmetric])
qed

lemma round_double_sqrt:
  assumes "(pow2 e)\<^sup>2 \<le> s" and "s < (pow2 (e + 1))\<^sup>2" and "- 1022 \<le> e" and "e \<le> 1022"
    and "0 \<le> of_int m - (1 / 2 :: real)"
    and "((of_int m - 1 / 2) * pow2 (e - 52))\<^sup>2 < s"
    and "s < ((of_int m + 1 / 2) * pow2 (e - 52))\<^sup>2"
    and "\<bar>of_int m * pow2 (e - 52)\<bar> < pow2 1024"
  shows "round_double (sqrt s) = Num (of_int m * pow2 (e - 52))"
proof -
  have u: "0 < pow2 (e - 52)" by (rule pow2_pos)
  have s0: "0 \<le> s"
    using assms(1) by (smt (verit) zero_le_power2)
  have b1: "pow2 e \<le> \<bar>sqrt s\<bar>"
    using assms(1) s0 pow2_pos [of e] by (simp add: real_le_rsqrt)
  have b2: "\<bar>sqrt s\<bar> < pow2 (e + 1)"
    using assms(2) s0 pow2_pos [of "e + 1"] by (simp add: real_less_lsqrt)
  have lo: "(of_int m - 1 / 2) * pow2 (e - 52) < sqrt s"
    using assms(6) by (rule real_less_rsqrt)
  have hi: "sqrt s < (of_int m + 1 / 2) * pow2 (e - 52)"
    using assms(5,7) u by (intro real_less_lsqrt) simp_all
  have "of_int m - 1 / 2 < sqrt s / pow2 (e - 52)" "sqrt s / pow2 (e - 52) < of_int m + 1 / 2"
    using lo hi u by (simp_all add: field_simps)
  then have "round_even (sqrt s / pow2 (e - 52)) = m"
    by (rule round_even_between)
  from round_double_normal [OF b1 b2 assms(3) this assms(8)] show ?thesis .
qed

lemma rd_1_9: "round_double 1.9 = Num (4278419646001971 / 2 ^ 51)"
  by (rule round_double_normal [where e = 0 and m = 8556839292003942, THEN trans])
     (simp_all add: pow2_def round_even_def)

lemma repr_1: "representable 1"
  by (rule representable_dyadic [where e = 0 and m = "2 ^ 52"]) (simp_all add: pow2_def)

lemma repr_m1: "representable (- 1)"
  by (rule representable_dyadic [where e = 0 and m = "- (2 ^ 52)"]) (simp_all add: pow2_def)

lemma repr_5: "representable 5"
  by (rule representable_dyadic [where e = 2 and m = "5 * 2 ^ 50"]) (simp_all add: pow2_def)

lemma repr_25: "representable 25"
  by (rule representable_dyadic [where e = 4 and m = "25 * 2 ^ 48"]) (simp_all add: pow2_def)

lemma repr_2_5: "representable (5 / 2)"
  by (rule representable_dyadic [where e = 1 and m = "5 * 2 ^ 50"]) (simp_all add: pow2_def)

lemma sqrt_ex: "round_double (sqrt (254031166481367 / 2 ^ 46)) = Num (4278419646001971 / 2 ^ 51)"
  by (rule round_double_sqrt [where e = 0 and m = 8556839292003942, THEN trans])
     (simp_all add: pow2_def power2_eq_square)

lemma rd_2: "round_double (2) = Num (2)"
  by (rule round_double_normal [where e = "1" and m = "4503599627370496", THEN trans])
     (simp_all add: pow2_def round_even_def)

lemma rd_3: "round_double (3) = Num (3)"
  by (rule round_double_normal [where e = "1" and m = "6755399441055744", THEN trans])
     (simp_all add: pow2_def round_even_def)

lemma rd_4: "round_double (4) = Num (4)"
  by (rule round_double_normal [where e = "2" and m = "4503599627370496", THEN trans])
     (simp_all add: pow2_def round_even_def)

lemma rd_6: "round_double (6) = Num (6)"
  by (rule round_double_normal [where e = "2" and m = "6755399441055744", THEN trans])
     (simp_all add: pow2_def round_even_def)

lemma rd_half: "round_double (1 / 2) = Num (1 / 2 ^ 1)"
  by (rule round_double_normal [where e = "- 1" and m = "4503599627370496", THEN trans])
     (simp_all add: pow2_def round_even_def)

lemma rd_mhalf: "round_double (- (1 / 2)) = Num (- (1 / 2 ^ 1))"
  by (rule round_double_normal [where e = "- 1" and m = "- 4503599627370496", THEN trans])
     (simp_all add: pow2_def round_even_def)

lemma rd_3half: "round_double (3 / 2) = Num (3 / 2 ^ 1)"
  by (rule round_double_normal [where e = "0" and m = "6755399441055744", THEN trans])
     (simp_all add: pow2_def round_even_def)

lemma rd_5half: "round_double (5 / 2) = Num (5 / 2 ^ 1)"
  by (rule round_double_normal [where e = "1" and m = "5629499534213120", THEN trans])
     (simp_all add: pow2_def round_even_def)

lemma rd_m5half: "round_double (- (5 / 2)) = Num (- (5 / 2 ^ 1))"
  by (rule round_double_normal [where e = "1" and m = "- 5629499534213120", THEN trans])
     (simp_all add: pow2_def round_even_def)

lemma rd_0_77: "round_double (0.77) = Num (1733885856537641 / 2 ^ 51)"
  by (rule round_double_normal [where e = "- 1" and m = "6935543426150564", THEN trans])
     (simp_all add: pow2_def round_even_def)

lemma rd_0_4: "round_double (0.4) = Num (3602879701896397 / 2 ^ 53)"
  by (rule round_double_normal [where e = "- 2" and m = "7205759403792794", THEN trans])
     (simp_all add: pow2_def round_even_def)

lemma rd_radius: "round_double (1733885856537641 / 2 ^ 51 * (3602879701896397 / 2 ^ 53)) = Num (1387108685230113 / 2 ^ 52)"
  by (rule round_double_normal [where e = "- 2" and m = "5548434740920452", THEN trans])
     (simp_all add: pow2_def round_even_def)

lemma rd_tenth: "round_double (3602879701896397 / 2 ^ 55) = Num (3602879701896397 / 2 ^ 55)"
  by (rule round_double_normal [where e = "- 4" and m = "7205759403792794", THEN trans])
     (simp_all add: pow2_def round_even_def)

lemma rd_one_tenth: "round_double (1 + 3602879701896397 / 2 ^ 55) = Num (2476979795053773 / 2 ^ 51)"
  by (rule round_double_normal [where e = "0" and m = "4953959590107546", THEN trans])
     (simp_all add: pow2_def round_even_def)

lemma rd_sum_tenth: "round_double (3602879701896397 / 2 ^ 55 + 2476979795053773 / 2 ^ 51) = Num (1351079888211149 / 2 ^ 50)"
  by (rule round_double_normal [where e = "0" and m = "5404319552844596", THEN trans])
     (simp_all add: pow2_def round_even_def)

lemma rd_centre_tenth: "round_double (1351079888211149 / 2 ^ 50 / 2) = Num (1351079888211149 / 2 ^ 51)"
  by (rule round_double_normal [where e = "- 1" and m = "5404319552844596", THEN trans])
     (simp_all add: pow2_def round_even_def)

lemma rd_first_tenth: "round_double (3602879701896397 / 2 ^ 55 - 1351079888211149 / 2 ^ 51) = Num (- (4503599627370497 / 2 ^ 53))"
  by (rule round_double_normal [where e = "- 1" and m = "- 4503599627370497", THEN trans])
     (simp_all add: pow2_def round_even_def)

lemma rd_second_tenth: "round_double (2476979795053773 / 2 ^ 51 - 1351079888211149 / 2 ^ 51) = Num (1 / 2 ^ 1)"
  by (rule round_double_normal [where e = "- 1" and m = "4503599627370496", THEN trans])
     (simp_all add: pow2_def round_even_def)

lemma rd_diff_tenth: "round_double (3602879701896397 / 2 ^ 55 - 2476979795053773 / 2 ^ 51) = Num (- 1)"
  by (rule round_double_normal [where e = "0" and m = "- 4503599627370496", THEN trans])
     (simp_all add: pow2_def round_even_def)

lemma rd_11_104: "round_double (11.104) = Num (781374535348781 / 2 ^ 46)"
  by (rule round_double_normal [where e = "3" and m = "6250996282790248", THEN trans])
     (simp_all add: pow2_def round_even_def)

lemma rd_12_104: "round_double (12.104) = Num (851743279526445 / 2 ^ 46)"
  by (rule round_double_normal [where e = "3" and m = "6813946236211560", THEN trans])
     (simp_all add: pow2_def round_even_def)

lemma rd_6_134: "round_double (6.134) = Num (431641876785791 / 2 ^ 46)"
  by (rule round_double_normal [where e = "2" and m = "6906270028572656", THEN trans])
     (simp_all add: pow2_def round_even_def)

lemma rd_m6_504: "round_double (- 6.504) = Num (- (3661426497052213 / 2 ^ 49))"
  by (rule round_double_normal [where e = "2" and m = "- 7322852994104426", THEN trans])
     (simp_all add: pow2_def round_even_def)

lemma rd_diff_snippet: "round_double (781374535348781 / 2 ^ 46 - 851743279526445 / 2 ^ 46) = Num (- 1)"
  by (rule round_double_normal [where e = "0" and m = "- 4503599627370496", THEN trans])
     (simp_all add: pow2_def round_even_def)

lemma round_even_floor: "\<lfloor>r\<rfloor> \<le> round_even r"
  by (simp add: round_even_def)

text \<open>
  A real of magnitude \<open>2 ^ 1024\<close> or more is beyond the doubles and rounds to an infinity.
\<close>

lemma round_double_overflow:
  assumes "pow2 1024 \<le> r"
  shows "round_double r = PosInf"
proof -
  have r0: "0 < r"
    using assms pow2_pos [of 1024] by linarith
  define b where "b = \<lfloor>log 2 r\<rfloor>"
  have "log 2 (pow2 1024) \<le> log 2 r"
    using assms pow2_pos [of 1024] by (subst log_le_cancel_iff) simp_all
  moreover have "log 2 (pow2 1024) = of_int 1024"
    unfolding pow2_powr by (rule log_powr_cancel) simp_all
  ultimately have "1024 \<le> log 2 r"
    by simp
  then have b: "1024 \<le> b"
    unfolding b_def by linarith
  then have bin: "binade r = b"
    using r0 by (simp add: binade_def b_def)
  have "2 powr (of_int b) \<le> 2 powr (log 2 r)"
    unfolding b_def by (intro powr_mono) simp_all
  then have rb: "pow2 b \<le> r"
    using r0 by (simp add: pow2_powr)
  have u: "0 < pow2 (b - 52)" by (rule pow2_pos)
  have split: "pow2 b = 2 ^ 52 * pow2 (b - 52)"
    by (simp add: pow2_powr powr_diff)
  have "2 ^ 52 \<le> r / pow2 (b - 52)"
    using rb u by (simp add: split pos_le_divide_eq)
  then have "(2 ^ 52 :: int) \<le> \<lfloor>r / pow2 (b - 52)\<rfloor>"
    by (simp add: le_floor_iff)
  with round_even_floor [of "r / pow2 (b - 52)"]
  have "(2 ^ 52 :: int) \<le> round_even (r / pow2 (b - 52))" by linarith
  then have "(2 ^ 52 :: real) \<le> of_int (round_even (r / pow2 (b - 52)))"
    by (metis of_int_le_iff of_int_numeral of_int_power)
  then have "2 ^ 52 * pow2 (b - 52) \<le> of_int (round_even (r / pow2 (b - 52))) * pow2 (b - 52)"
    using u by (simp add: mult_right_mono)
  then have "pow2 b \<le> of_int (round_even (r / pow2 (b - 52))) * pow2 (b - 52)"
    by (simp only: split)
  moreover have "pow2 1024 \<le> pow2 b"
    using b by (rule pow2_mono)
  ultimately have "pow2 1024 \<le> \<bar>of_int (round_even (r / pow2 (b - 52))) * pow2 (b - 52)\<bar>"
    by linarith
  then show ?thesis
    using r0 by (simp add: round_double_def bin Let_def)
qed

section \<open>Bond generation: what the loops compute\<close>

lemma inner_loop_eq:
  "inner_loop ats i j bs =
     bs @ concat (map (\<lambda>k. if distance_test (ats ! i) (ats ! k)
                            then [\<lparr>atom1 = i, atom2 = k, order = 1\<rparr>] else [])
                      [j..<length ats])"
proof (induction ats i j bs rule: inner_loop.induct)
  case (1 ats i j bs)
  show ?case
  proof (cases "j < length ats")
    case True
    then have up: "[j..<length ats] = j # [j + 1..<length ats]"
      by (simp add: upt_conv_Cons)
    show ?thesis
      using True "1.IH" by (subst inner_loop.simps) (simp add: up)
  next
    case False
    then show ?thesis by (subst inner_loop.simps) simp
  qed
qed

lemma outer_loop_eq:
  "outer_loop ats i bs =
     bs @ concat (map (\<lambda>i. concat (map (\<lambda>k. if distance_test (ats ! i) (ats ! k)
                            then [\<lparr>atom1 = i, atom2 = k, order = 1\<rparr>] else [])
                      [i + 1..<length ats])) [i..<length ats])"
proof (induction ats i bs rule: outer_loop.induct)
  case (1 ats i bs)
  show ?case
  proof (cases "i < length ats")
    case True
    then have up: "[i..<length ats] = i # [i + 1..<length ats]"
      by (simp add: upt_conv_Cons)
    show ?thesis
      using True "1.IH" by (subst outer_loop.simps) (simp add: up inner_loop_eq)
  next
    case False
    then show ?thesis by (subst outer_loop.simps) simp
  qed
qed

lemma inferBonds_eq:
  "inferBonds ats =
     [\<lparr>atom1 = i, atom2 = j, order = 1\<rparr>. i \<leftarrow> [0..<length ats], j \<leftarrow> [i + 1..<length ats],
        distance_test (ats ! i) (ats ! j)]"
  by (simp add: inferBonds_def outer_loop_eq)

lemma inferBonds_member:
  "b \<in> set (inferBonds ats) \<Longrightarrow> atom1 b < atom2 b \<and> atom2 b < length ats \<and> order b = 1"
  by (auto simp: inferBonds_eq split: if_splits)

lemma rd_1: "round_double 1 = Num 1"
  using repr_1 by (simp add: representable_def)

lemma rd_m1: "round_double (- 1) = Num (- 1)"
  using repr_m1 by (simp add: representable_def)

lemma rd_5: "round_double 5 = Num 5"
  using repr_5 by (simp add: representable_def)

lemma repr_m5: "representable (- 5)"
  by (rule representable_dyadic [where e = 2 and m = "- (5 * 2 ^ 50)"]) (simp_all add: pow2_def)

lemma rd_m5: "round_double (- 5) = Num (- 5)"
  using repr_m5 by (simp add: representable_def)

lemma rd_25: "round_double 25 = Num 25"
  using repr_25 by (simp add: representable_def)

lemma inferBonds_pair:
  "inferBonds [p, q] = (if distance_test p q then [\<lparr>atom1 = 0, atom2 = 1, order = 1\<rparr>] else [])"
  by (simp add: inferBonds_eq upt_rec [of 0] upt_rec [of 1] upt_rec [of 2])

lemma inferBonds_near:
  "inferBonds [\<lparr>element = e1, x = Num 0, y = Num 0, z = Num 0\<rparr>,
               \<lparr>element = e2, x = Num 1, y = Num 0, z = Num 0\<rparr>]
   = [\<lparr>atom1 = 0, atom2 = 1, order = 1\<rparr>]"
  by (simp add: inferBonds_eq distance_test_def upt_rec [of 0] upt_rec [of 1] upt_rec [of 2]
        round_double_0 rd_1 rd_m1 rd_1_9)

lemma inferBonds_far:
  "inferBonds [\<lparr>element = e1, x = Num 0, y = Num 0, z = Num 0\<rparr>,
               \<lparr>element = e2, x = Num 5, y = Num 0, z = Num 0\<rparr>]
   = []"
  by (simp add: inferBonds_eq distance_test_def upt_rec [of 0] upt_rec [of 1] upt_rec [of 2]
        round_double_0 rd_5 rd_m5 rd_25 rd_1_9)

lemma rd_xq: "round_double (- (5252054556168115 / 2 ^ 52)) = Num (- (5252054556168115 / 2 ^ 52))"
  by (rule round_double_normal [where e = 0 and m = "- 5252054556168115", THEN trans])
     (simp_all add: pow2_def round_even_def)

lemma rd_xq2:
  "round_double (5252054556168115 / 2 ^ 52 * (5252054556168115 / 2 ^ 52))
     = Num (6124895493223871 / 2 ^ 52)"
  by (rule round_double_normal [where e = 0 and m = 6124895493223871, THEN trans])
     (simp_all add: pow2_def round_even_def)

lemma rd_m1_5: "round_double (- (3 / 2)) = Num (- (3 / 2))"
  by (rule round_double_normal [where e = 0 and m = "- (3 * 2 ^ 51)", THEN trans])
     (simp_all add: pow2_def round_even_def)

lemma rd_2_25: "round_double (9 / 4) = Num (9 / 4)"
  by (rule round_double_normal [where e = 1 and m = "9 * 2 ^ 49", THEN trans])
     (simp_all add: pow2_def round_even_def)

lemma rd_sum: "round_double (6124895493223871 / 2 ^ 52 + 9 / 4) = Num (254031166481367 / 2 ^ 46)"
  by (rule round_double_normal [where e = 1 and m = 8128997327403744, THEN trans])
     (simp_all add: pow2_def round_even_def)

lemma rd_sum2: "round_double (254031166481367 / 2 ^ 46) = Num (254031166481367 / 2 ^ 46)"
  by (rule round_double_normal [where e = 1 and m = 8128997327403744, THEN trans])
     (simp_all add: pow2_def round_even_def)

lemma distance_test_close_pair: "\<not> distance_test (close_pair ! 0) (close_pair ! 1)"
  by (simp add: close_pair_def distance_test_def Let_def round_double_0 rd_xq [simplified]
        rd_xq2 [simplified] rd_m1_5 [simplified] rd_2_25 [simplified] rd_sum [simplified]
        rd_sum2 [simplified] sqrt_ex [simplified] rd_1_9 [simplified])

lemma within_close_pair: "within_bonding_threshold (close_pair ! 0) (close_pair ! 1)"
proof -
  have "sqrt ((5252054556168115 / 2 ^ 52)\<^sup>2 + (3 / 2)\<^sup>2) < sqrt ((19 / 10)\<^sup>2)"
    by (subst real_sqrt_less_iff) (simp add: power2_eq_square)
  then show ?thesis
    by (simp add: close_pair_def within_bonding_threshold_def finite_position_def
          euclidean_distance_def)
qed

text \<open>
  Claim C1 as it is written speaks of the Euclidean distance. The two atoms of
  \<open>close_pair\<close> are at a Euclidean distance strictly below 1.9, but the distance the code
  computes for them, each operation rounded, is the double nearest to 1.9, which is not
  below itself: the pass emits no bond.
\<close>

theorem close_pair_not_bonded:
  "within_bonding_threshold (close_pair ! 0) (close_pair ! 1) \<and> inferBonds close_pair = []"
proof
  show "within_bonding_threshold (close_pair ! 0) (close_pair ! 1)"
    by (rule within_close_pair)
  show "inferBonds close_pair = []"
    using distance_test_close_pair
    by (simp add: close_pair_def inferBonds_pair)
qed

text \<open>
  Claim C1, as the code has it. For every sequence of atoms the pass emits, in the order
  of the loops, one bond of order 1 for each pair of indices \<open>i < j\<close> whose distance as the
  code computes it (the three differences, their squares, the two sums and the square
  root, each rounded to the nearest double) is strictly below the double nearest to 1.9,
  and nothing else. Two atoms at (0,0,0) and (1,0,0) give exactly the bond between them;
  two atoms at (0,0,0) and (5,0,0) give none.
\<close>

theorem inferBonds_computed_distance:
  "inferBonds ats =
     [\<lparr>atom1 = i, atom2 = j, order = 1\<rparr>. i \<leftarrow> [0..<length ats], j \<leftarrow> [i + 1..<length ats],
        distance_test (ats ! i) (ats ! j)]
   \<and> inferBonds [\<lparr>element = e1, x = Num 0, y = Num 0, z = Num 0\<rparr>,
                 \<lparr>element = e2, x = Num 1, y = Num 0, z = Num 0\<rparr>]
       = [\<lparr>atom1 = 0, atom2 = 1, order = 1\<rparr>]
   \<and> inferBonds [\<lparr>element = e1, x = Num 0, y = Num 0, z = Num 0\<rparr>,
                 \<lparr>element = e2, x = Num 5, y = Num 0, z = Num 0\<rparr>]
       = []"
  by (intro conjI) (rule inferBonds_eq, rule inferBonds_near, rule inferBonds_far)

lemma demoBonds_member:
  "b \<in> set demoBonds \<Longrightarrow>
     atom1 b \<noteq> atom2 b \<and> atom1 b < 12 \<and> atom2 b < 12
     \<and> (\<forall>b' \<in> set demoBonds. \<not> (atom1 b' = atom2 b \<and> atom2 b' = atom1 b))"
  by (auto simp: demoBonds_def)

lemma parseMoleculeData_cases:
  "(parseMoleculeData a p = \<lparr>atoms = demoAtoms, bonds = demoBonds\<rparr>)
   \<or> (bonds (parseMoleculeData a p) = inferBonds (atoms (parseMoleculeData a p)))"
  by (cases a; cases p; cases "the p") (simp_all add: parseMoleculeData_def Let_def)

text \<open>
  Claim C2. For every sequence of atoms, no bond the pass returns joins an atom to itself,
  both indices of every bond are indices of the sequence, and no two returned bonds are
  the same pair in opposite orders. The same holds of every graph that
  \<^verbatim>\<open>parseMoleculeData\<close> returns, whichever of its three branches is taken.
\<close>

theorem inferBonds_indices:
  "(\<forall>b \<in> set (inferBonds ats).
      atom1 b \<noteq> atom2 b \<and> atom1 b < length ats \<and> atom2 b < length ats
      \<and> (\<forall>b' \<in> set (inferBonds ats). \<not> (atom1 b' = atom2 b \<and> atom2 b' = atom1 b)))
   \<and> (\<forall>b \<in> set (bonds (parseMoleculeData a p)).
      atom1 b \<noteq> atom2 b
      \<and> atom1 b < length (atoms (parseMoleculeData a p))
      \<and> atom2 b < length (atoms (parseMoleculeData a p))
      \<and> (\<forall>b' \<in> set (bonds (parseMoleculeData a p)).
            \<not> (atom1 b' = atom2 b \<and> atom2 b' = atom1 b)))"
proof
  show inferred: "\<forall>b \<in> set (inferBonds ats).
      atom1 b \<noteq> atom2 b \<and> atom1 b < length ats \<and> atom2 b < length ats
      \<and> (\<forall>b' \<in> set (inferBonds ats). \<not> (atom1 b' = atom2 b \<and> atom2 b' = atom1 b))"
    for ats
  proof (intro ballI conjI)
    fix b assume b: "b \<in> set (inferBonds ats)"
    from inferBonds_member [OF b]
    show "atom1 b \<noteq> atom2 b" "atom1 b < length ats" "atom2 b < length ats"
      by simp_all
    fix b' assume b': "b' \<in> set (inferBonds ats)"
    from inferBonds_member [OF b] inferBonds_member [OF b']
    show "\<not> (atom1 b' = atom2 b \<and> atom2 b' = atom1 b)" by auto
  qed
  show "\<forall>b \<in> set (bonds (parseMoleculeData a p)).
      atom1 b \<noteq> atom2 b
      \<and> atom1 b < length (atoms (parseMoleculeData a p))
      \<and> atom2 b < length (atoms (parseMoleculeData a p))
      \<and> (\<forall>b' \<in> set (bonds (parseMoleculeData a p)).
            \<not> (atom1 b' = atom2 b \<and> atom2 b' = atom1 b))"
  proof (cases "parseMoleculeData a p = \<lparr>atoms = demoAtoms, bonds = demoBonds\<rparr>")
    case True
    have "length demoAtoms = 12" by (simp add: demoAtoms_def)
    with True demoBonds_member show ?thesis by simp
  next
    case False
    with parseMoleculeData_cases [of a p]
    have "bonds (parseMoleculeData a p) = inferBonds (atoms (parseMoleculeData a p))"
      by simp
    with inferred [of "atoms (parseMoleculeData a p)"] show ?thesis
      by (simp only:)
  qed
qed

text \<open>
  The statement at two atoms one unit apart: the bond from 0 to 1 is returned, hence the
  bond from 1 to 0 is not.
\<close>

theorem inferBonds_indices_witness:
  "\<lparr>atom1 = 0, atom2 = 1, order = 1\<rparr>
     \<in> set (inferBonds [\<lparr>element = ''C'', x = Num 0, y = Num 0, z = Num 0\<rparr>,
                        \<lparr>element = ''O'', x = Num 1, y = Num 0, z = Num 0\<rparr>])
   \<and> \<lparr>atom1 = 1, atom2 = 0, order = 1\<rparr>
     \<notin> set (inferBonds [\<lparr>element = ''C'', x = Num 0, y = Num 0, z = Num 0\<rparr>,
                        \<lparr>element = ''O'', x = Num 1, y = Num 0, z = Num 0\<rparr>])"
proof -
  let ?ats = "[\<lparr>element = ''C'', x = Num 0, y = Num 0, z = Num 0\<rparr>,
               \<lparr>element = ''O'', x = Num 1, y = Num 0, z = Num 0\<rparr>]"
  have mem: "\<lparr>atom1 = 0, atom2 = 1, order = 1\<rparr> \<in> set (inferBonds ?ats)"
    by (simp add: inferBonds_near)
  from inferBonds_indices [of ?ats, THEN conjunct1, THEN bspec, OF mem]
  have "\<forall>b' \<in> set (inferBonds ?ats). \<not> (atom1 b' = 1 \<and> atom2 b' = 0)"
    by simp
  then have "\<lparr>atom1 = 1, atom2 = 0, order = 1\<rparr> \<notin> set (inferBonds ?ats)"
    by force
  with mem show ?thesis by simp
qed

section \<open>Parsing: the loop over the lines\<close>

lemma startsWith_ATOM: "startsWith line ''ATOM'' = (take 4 line = ''ATOM'')"
  by (simp add: startsWith_def eval_nat_numeral)

lemma startsWith_HETATM: "startsWith line ''HETATM'' = (take 6 line = ''HETATM'')"
  by (simp add: startsWith_def eval_nat_numeral)

lemma substring_columns: "a \<le> b \<Longrightarrow> substring line a b = columns a b line"
  by (auto simp: substring_def columns_def Let_def min_def max_def)

lemma parse_lines_eq:
  "parse_lines lines parsedAtoms
     = parsedAtoms @ map atom_of_record (filter is_atom_record lines)"
  by (induction lines arbitrary: parsedAtoms)
     (simp_all add: startsWith_ATOM startsWith_HETATM is_atom_record_def atom_of_record_def
        substring_columns)

lemma parseMoleculeData_text:
  "parseMoleculeData None (Some (c # cs))
     = \<lparr>atoms = record_atoms (c # cs), bonds = inferBonds (record_atoms (c # cs))\<rparr>"
  by (simp add: parseMoleculeData_def Let_def parse_lines_eq record_atoms_def)

lemma split_snippet:
  "split_on (CHR 0x0A) pdb_snippet =
     [''HEADER    LIGAND FRAGMENT'',
      ''ATOM      1  N   ALA A   1      11.104   6.134  -6.504  1.00  0.00           N  '',
      ''HETATM    2  CA  LIG A   2      12.104   6.134  -6.504'',
      ''END'']"
  by (simp add: pdb_snippet_def)

lemma atom_of_record_1:
  "atom_of_record
     ''ATOM      1  N   ALA A   1      11.104   6.134  -6.504  1.00  0.00           N  ''
     = \<lparr>element = ''N'', x = round_double 11.104, y = round_double 6.134,
        z = round_double (- 6.504)\<rparr>"
  by (simp add: atom_of_record_def columns_def trim_def parseFloat_def is_whitespace_def
        is_digit_def digits_value_def read_exponent_def Let_def)

lemma atom_of_record_2:
  "atom_of_record ''HETATM    2  CA  LIG A   2      12.104   6.134  -6.504''
     = \<lparr>element = ''C'', x = round_double 12.104, y = round_double 6.134,
        z = round_double (- 6.504)\<rparr>"
  by (simp add: atom_of_record_def columns_def trim_def parseFloat_def is_whitespace_def
        is_digit_def digits_value_def read_exponent_def Let_def)

lemma record_atoms_snippet:
  "record_atoms pdb_snippet =
     [\<lparr>element = ''N'', x = round_double 11.104, y = round_double 6.134,
       z = round_double (- 6.504)\<rparr>,
      \<lparr>element = ''C'', x = round_double 12.104, y = round_double 6.134,
       z = round_double (- 6.504)\<rparr>]"
  unfolding record_atoms_def split_snippet
  by (simp add: is_atom_record_def atom_of_record_1 atom_of_record_2)

lemma inferBonds_snippet:
  "inferBonds [\<lparr>element = ''N'', x = round_double 11.104, y = round_double 6.134,
                z = round_double (- 6.504)\<rparr>,
               \<lparr>element = ''C'', x = round_double 12.104, y = round_double 6.134,
                z = round_double (- 6.504)\<rparr>]
     = [\<lparr>atom1 = 0, atom2 = 1, order = 1\<rparr>]"
  by (simp add: inferBonds_pair distance_test_def rd_11_104 [simplified] rd_12_104 [simplified]
        rd_6_134 [simplified] rd_m6_504 [simplified] rd_diff_snippet [simplified]
        round_double_0 rd_1 rd_m1 rd_1_9 [simplified])

lemma snippet_doubles:
  "round_double 11.104 = Num (781374535348781 / 2 ^ 46)
   \<and> round_double 12.104 = Num (851743279526445 / 2 ^ 46)
   \<and> round_double 6.134 = Num (431641876785791 / 2 ^ 46)
   \<and> round_double (- 6.504) = Num (- (3661426497052213 / 2 ^ 49))"
  by (intro conjI) (rule rd_11_104, rule rd_12_104, rule rd_6_134, rule rd_m6_504)

text \<open>
  Claim C5. Parsing a non-empty structure text gives one atom per line that starts with
  \<^verbatim>\<open>ATOM\<close> or \<^verbatim>\<open>HETATM\<close>, in the order of the lines, with the coordinates read from the
  columns 30 to 37, 38 to 45 and 46 to 53 and the element symbol from the columns 76 and 77
  or, when these are blank or missing, 12 and 13; every other line is skipped, and the
  bonds are those the distance pass generates from the parsed atoms. On the example text
  the two atoms have the coordinates written in it, that is the doubles that the
  literals \<^verbatim>\<open>11.104\<close>, \<^verbatim>\<open>12.104\<close>, \<^verbatim>\<open>6.134\<close> and \<^verbatim>\<open>-6.504\<close> denote, and the one bond between
  them.
\<close>

theorem parse_structure_text:
  "parseMoleculeData None (Some (c # cs))
     = \<lparr>atoms = record_atoms (c # cs), bonds = inferBonds (record_atoms (c # cs))\<rparr>
   \<and> parseMoleculeData None (Some pdb_snippet)
     = \<lparr>atoms = [\<lparr>element = ''N'', x = round_double 11.104, y = round_double 6.134,
                  z = round_double (- 6.504)\<rparr>,
                 \<lparr>element = ''C'', x = round_double 12.104, y = round_double 6.134,
                  z = round_double (- 6.504)\<rparr>],
        bonds = [\<lparr>atom1 = 0, atom2 = 1, order = 1\<rparr>]\<rparr>"
proof
  show "parseMoleculeData None (Some (c # cs))
     = \<lparr>atoms = record_atoms (c # cs), bonds = inferBonds (record_atoms (c # cs))\<rparr>"
    by (rule parseMoleculeData_text)
next
  obtain d ds where "pdb_snippet = d # ds"
    by (simp add: pdb_snippet_def)
  then have "parseMoleculeData None (Some pdb_snippet)
     = \<lparr>atoms = record_atoms pdb_snippet, bonds = inferBonds (record_atoms pdb_snippet)\<rparr>"
    using parseMoleculeData_text [of d ds] by simp
  then show "parseMoleculeData None (Some pdb_snippet)
     = \<lparr>atoms = [\<lparr>element = ''N'', x = round_double 11.104, y = round_double 6.134,
                  z = round_double (- 6.504)\<rparr>,
                 \<lparr>element = ''C'', x = round_double 12.104, y = round_double 6.134,
                  z = round_double (- 6.504)\<rparr>],
        bonds = [\<lparr>atom1 = 0, atom2 = 1, order = 1\<rparr>]\<rparr>"
    by (simp only: record_atoms_snippet inferBonds_snippet)
qed

text \<open>
  Claim C10. Called with neither an atom list nor a structure text (or with an empty
  text), \<^verbatim>\<open>parseMoleculeData\<close> returns the built-in molecule: 12 atoms and 13 bonds whose
  orders are 1 and 2.
\<close>

theorem demo_molecule:
  "parseMoleculeData None None = \<lparr>atoms = demoAtoms, bonds = demoBonds\<rparr>
   \<and> parseMoleculeData None (Some []) = \<lparr>atoms = demoAtoms, bonds = demoBonds\<rparr>
   \<and> length demoAtoms = 12
   \<and> length demoBonds = 13
   \<and> set (map order demoBonds) = {1, 2}"
  by (simp add: parseMoleculeData_def demoAtoms_def demoBonds_def insert_commute)

text \<open>
  Fields that do not hold a finite number: \<^verbatim>\<open>parseFloat\<close> reads the literal \<^verbatim>\<open>Infinity\<close>,
  with or without a sign and after white space, as an infinity, rounds a literal beyond
  the range of the doubles to an infinity, and returns \<^verbatim>\<open>NaN\<close> for a field without digits
  (the asterisks that some writers put into an overflowing column). The atom is produced
  all the same.
\<close>

lemma parseFloat_not_finite:
  "parseFloat ''Infinity'' = PosInf
   \<and> parseFloat '' -Infinity'' = NegInf
   \<and> parseFloat ''1e309'' = PosInf
   \<and> parseFloat ''******'' = NaN"
proof (intro conjI)
  show "parseFloat ''Infinity'' = PosInf" "parseFloat '' -Infinity'' = NegInf"
    "parseFloat ''******'' = NaN"
    by (simp_all add: parseFloat_def is_whitespace_def is_digit_def Let_def)
  have "pow2 1024 \<le> 10 ^ 309"
    by (simp add: pow2_def)
  then have "round_double (10 ^ 309) = PosInf"
    by (rule round_double_overflow)
  then show "parseFloat ''1e309'' = PosInf"
    by (simp add: parseFloat_def is_whitespace_def is_digit_def digits_value_def
        read_exponent_def Let_def)
qed

section \<open>The scene\<close>

lemma parseMoleculeData_atoms:
  "parseMoleculeData (Some ats) pd = \<lparr>atoms = ats, bonds = inferBonds ats\<rparr>"
  by (simp add: parseMoleculeData_def)

lemma onContextCreate_atoms:
  "onContextCreate (p\<lparr>inputAtoms := Some ats\<rparr>) =
     (if (case style p of None \<Rightarrow> BallStick | Some s \<Rightarrow> s) \<noteq> SpaceFill then
        (case bond_meshes ats (center_of ats) (inferBonds ats) of
           Inl e \<Rightarrow> Inl e
         | Inr ms \<Rightarrow>
             Inr \<lparr>spheres = map (atom_mesh (case style p of None \<Rightarrow> BallStick | Some s \<Rightarrow> s)
                                   (center_of ats)) ats,
                  cylinders = ms\<rparr>)
      else Inr \<lparr>spheres = map (atom_mesh (case style p of None \<Rightarrow> BallStick | Some s \<Rightarrow> s)
                                 (center_of ats)) ats,
                cylinders = []\<rparr>)"
  by (simp add: onContextCreate_def parseMoleculeData_atoms Let_def cong: sum.case_cong)

lemma translate_sel:
  "x (translate (vx, vy, vz) a) = jadd (x a) (Num vx)"
  "y (translate (vx, vy, vz) a) = jadd (y a) (Num vy)"
  "z (translate (vx, vy, vz) a) = jadd (z a) (Num vz)"
  "element (translate (vx, vy, vz) a) = element a"
  by (simp_all add: translate_def)

lemma finite_coordinate:
  "map f ats = map Num rs \<Longrightarrow> list_all P rs \<Longrightarrow> a \<in> set ats \<Longrightarrow> \<exists>r. f a = Num r \<and> P r"
proof (induction ats arbitrary: rs)
  case Nil
  then show ?case by simp
next
  case (Cons b ats)
  then obtain r rs' where rs: "rs = r # rs'" by (cases rs) auto
  with Cons show ?case by auto
qed

lemma exact_sum:
  "map f ats = map Num rs \<Longrightarrow> sums_exact s rs \<Longrightarrow>
     foldl (\<lambda>c a. jadd c (f a)) (Num s) ats = Num (s + sum_list rs)"
proof (induction ats arbitrary: s rs)
  case Nil
  then show ?case by simp
next
  case (Cons b ats)
  then obtain r rs' where rs: "rs = r # rs'" by (cases rs) auto
  with Cons.prems have b: "f b = Num r" and m: "map f ats = map Num rs'"
    and e: "representable (s + r)" and se: "sums_exact (s + r) rs'"
    by simp_all
  from Cons.IH [OF m se] b e show ?case
    by (simp add: rs representable_def add.assoc)
qed

lemma sum_list_shift: "sum_list (map (\<lambda>r. r + d) rs) = sum_list rs + real (length rs) * (d::real)"
  by (induction rs) (simp_all add: algebra_simps)

lemma translated_coordinates:
  assumes "map f ats = map Num rs" and "list_all (\<lambda>r. representable (r + d)) rs"
    and g: "\<And>a. f (g a) = jadd (f a) (Num d)"
  shows "map f (map g ats) = map Num (map (\<lambda>r. r + d) rs)"
  using assms(1,2)
proof (induction ats arbitrary: rs)
  case Nil
  then show ?case by simp
next
  case (Cons b ats)
  then obtain r rs' where rs: "rs = r # rs'" by (cases rs) auto
  with Cons show ?case by (simp add: g representable_def)
qed

lemma axis_centroids:
  assumes m: "map f ats = map Num rs" and ex: "axis_exact d rs" and ne: "ats \<noteq> []"
    and g: "\<And>a. f (g a) = jadd (f a) (Num d)"
  shows "jdiv (foldl (\<lambda>c a. jadd c (f a)) (Num 0) ats) (Num (real (length ats)))
           = Num (sum_list rs / real (length rs))
       \<and> jdiv (foldl (\<lambda>c a. jadd c (f a)) (Num 0) (map g ats)) (Num (real (length ats)))
           = Num (sum_list rs / real (length rs) + d)"
proof -
  have len: "length rs = length ats"
    using m by (metis length_map)
  have n: "real (length ats) \<noteq> 0" using ne by simp
  from ex have a1: "list_all (\<lambda>r. representable (r + d)) rs"
    and a2: "sums_exact 0 rs" and a3: "sums_exact 0 (map (\<lambda>r. r + d) rs)"
    and a4: "representable (sum_list rs / real (length rs))"
    and a5: "representable (sum_list rs / real (length rs) + d)"
    by (simp_all add: axis_exact_def)
  have s1: "foldl (\<lambda>c a. jadd c (f a)) (Num 0) ats = Num (sum_list rs)"
    using exact_sum [OF m a2] by simp
  have m': "map f (map g ats) = map Num (map (\<lambda>r. r + d) rs)"
    by (rule translated_coordinates [OF m a1 g])
  have s2: "foldl (\<lambda>c a. jadd c (f a)) (Num 0) (map g ats)
              = Num (sum_list rs + real (length rs) * d)"
    using exact_sum [OF m' a3] by (simp add: sum_list_shift)
  have q: "(sum_list rs + real (length rs) * d) / real (length ats)
             = sum_list rs / real (length rs) + d"
    using n by (simp add: len add_divide_distrib)
  have c1: "jdiv (Num (sum_list rs)) (Num (real (length ats)))
              = Num (sum_list rs / real (length rs))"
    using n a4 by (simp add: representable_def len)
  have c2: "jdiv (Num (sum_list rs + real (length rs) * d)) (Num (real (length ats)))
              = Num (sum_list rs / real (length rs) + d)"
    using n a5 by (simp add: representable_def q)
  show ?thesis
    by (simp only: s1 s2 c1 c2)
qed

lemma shift_sub:
  "fa = Num r \<Longrightarrow> representable (r + d) \<Longrightarrow>
     jsub (jadd fa (Num d)) (Num (c + d)) = jsub fa (Num c)"
  by (simp add: representable_def)

lemma shift_diff:
  "fa = Num r \<Longrightarrow> representable (r + d) \<Longrightarrow> fb = Num r' \<Longrightarrow> representable (r' + d) \<Longrightarrow>
     jsub (jadd fa (Num d)) (jadd fb (Num d)) = jsub fa fb"
  by (simp add: representable_def)

lemma atom_mesh_shift:
  assumes "x a = Num rx" "representable (rx + vx)"
    and "y a = Num ry" "representable (ry + vy)"
    and "z a = Num rz" "representable (rz + vz)"
  shows "atom_mesh sty (Num (cx + vx), Num (cy + vy), Num (cz + vz)) (translate (vx, vy, vz) a)
           = atom_mesh sty (Num cx, Num cy, Num cz) a"
  using assms by (simp add: atom_mesh_def translate_sel representable_def)

lemma distance_test_shift:
  assumes "x p = Num px" "representable (px + vx)" "x q = Num qx" "representable (qx + vx)"
    and "y p = Num py" "representable (py + vy)" "y q = Num qy" "representable (qy + vy)"
    and "z p = Num pz" "representable (pz + vz)" "z q = Num qz" "representable (qz + vz)"
  shows "distance_test (translate (vx, vy, vz) p) (translate (vx, vy, vz) q) = distance_test p q"
  using assms by (simp add: distance_test_def translate_sel representable_def)

lemma exact_translation:
  assumes mx: "map x ats = map Num xs" and my: "map y ats = map Num ys"
    and mz: "map z ats = map Num zs"
    and ex: "axis_exact vx xs" and ey: "axis_exact vy ys" and ez: "axis_exact vz zs"
  shows "inferBonds (map (translate (vx, vy, vz)) ats) = inferBonds ats"
    and "map (atom_mesh sty (center_of (map (translate (vx, vy, vz)) ats)))
             (map (translate (vx, vy, vz)) ats)
           = map (atom_mesh sty (center_of ats)) ats"
    and "bond_meshes (map (translate (vx, vy, vz)) ats)
             (center_of (map (translate (vx, vy, vz)) ats)) bs
           = bond_meshes ats (center_of ats) bs"
proof -
  let ?t = "translate (vx, vy, vz)"
  have fin: "\<exists>rx ry rz. x a = Num rx \<and> representable (rx + vx)
                \<and> y a = Num ry \<and> representable (ry + vy)
                \<and> z a = Num rz \<and> representable (rz + vz)"
    if "a \<in> set ats" for a
  proof -
    from ex ey ez have "list_all (\<lambda>r. representable (r + vx)) xs"
      "list_all (\<lambda>r. representable (r + vy)) ys" "list_all (\<lambda>r. representable (r + vz)) zs"
      by (simp_all add: axis_exact_def)
    from finite_coordinate [OF mx this(1) that] finite_coordinate [OF my this(2) that]
      finite_coordinate [OF mz this(3) that]
    show ?thesis by blast
  qed
  have dt: "distance_test (?t (ats ! i)) (?t (ats ! j)) = distance_test (ats ! i) (ats ! j)"
    if "i < length ats" "j < length ats" for i j
  proof -
    from that have "ats ! i \<in> set ats" "ats ! j \<in> set ats" by simp_all
    from fin [OF this(1)] fin [OF this(2)] show ?thesis
      by (elim exE conjE) (rule distance_test_shift, assumption+)
  qed
  show b: "inferBonds (map ?t ats) = inferBonds ats"
    unfolding inferBonds_eq
    by (intro arg_cong [where f = concat] map_cong) (auto simp: dt)
  define cx where "cx = sum_list xs / real (length xs)"
  define cy where "cy = sum_list ys / real (length ys)"
  define cz where "cz = sum_list zs / real (length zs)"
  have c: "center_of ats = (Num cx, Num cy, Num cz)
           \<and> center_of (map ?t ats) = (Num (cx + vx), Num (cy + vy), Num (cz + vz))"
    if ne: "ats \<noteq> []"
    using axis_centroids [OF mx ex ne, of ?t] axis_centroids [OF my ey ne, of ?t]
      axis_centroids [OF mz ez ne, of ?t]
    by (simp add: center_of_def translate_sel cx_def cy_def cz_def)
  have am: "atom_mesh sty (Num (cx + vx), Num (cy + vy), Num (cz + vz)) (?t a)
              = atom_mesh sty (Num cx, Num cy, Num cz) a"
    if "a \<in> set ats" for a
    using fin [OF that] by (elim exE conjE) (rule atom_mesh_shift, assumption+)
  show "map (atom_mesh sty (center_of (map ?t ats))) (map ?t ats)
          = map (atom_mesh sty (center_of ats)) ats"
  proof (cases "ats = []")
    case True
    then show ?thesis by simp
  next
    case False
    from c [OF False] show ?thesis by (simp add: am)
  qed
  have pos: "jsub (x (?t a)) (Num (cx + vx)) = jsub (x a) (Num cx)
             \<and> jsub (y (?t a)) (Num (cy + vy)) = jsub (y a) (Num cy)
             \<and> jsub (z (?t a)) (Num (cz + vz)) = jsub (z a) (Num cz)"
    if "a \<in> set ats" for a
    using fin [OF that] by (auto simp: translate_sel representable_def)
  have bm: "bond_meshes (map ?t ats) (Num (cx + vx), Num (cy + vy), Num (cz + vz)) bs
              = bond_meshes ats (Num cx, Num cy, Num cz) bs"
  proof (induction bs)
    case Nil
    show ?case by simp
  next
    case (Cons b bs)
    show ?case
    proof (cases "atom1 b < length ats \<and> atom2 b < length ats")
      case True
      then have "ats ! atom1 b \<in> set ats" "ats ! atom2 b \<in> set ats" by simp_all
      from pos [OF this(1)] pos [OF this(2)] True Cons.IH show ?thesis
        by (simp split: sum.splits)
    next
      case False
      then show ?thesis by auto
    qed
  qed
  show "bond_meshes (map ?t ats) (center_of (map ?t ats)) bs = bond_meshes ats (center_of ats) bs"
  proof (cases "ats = []")
    case True
    then show ?thesis by (cases bs) simp_all
  next
    case False
    from c [OF False] bm show ?thesis by simp
  qed
qed

lemma rd_0_1: "round_double 0.1 = Num tenth"
  unfolding tenth_def
  by (rule round_double_normal [where e = "- 4" and m = "7205759403792794", THEN trans])
     (simp_all add: pow2_def round_even_def)

lemma repr_0: "representable 0"
  by (simp add: representable_def round_double_0)

lemma repr_small:
  "representable 2" "representable 3" "representable 4" "representable 6"
  "representable (1 / 2)" "representable (3 / 2)"
  using rd_2 rd_3 rd_4 rd_6 rd_half rd_3half by (simp_all add: representable_def)

lemma axis_exact_1: "axis_exact 1 [0, 1]"
  using repr_0 repr_1 repr_small by (simp add: axis_exact_def)

lemma axis_exact_2: "axis_exact 2 [0, 0]"
  using repr_0 repr_1 repr_small by (simp add: axis_exact_def)

lemma axis_exact_3: "axis_exact 3 [0, 0]"
  using repr_0 repr_1 repr_small by (simp add: axis_exact_def)

text \<open>
  Claim C6, as the code has it. Let the coordinates of the atoms be finite, and let the
  translation be one for which no operation rounds: on each axis the component and the
  coordinates are doubles and every translated coordinate, every partial sum of the
  coordinates before and after the translation, and both centroids are representable.
  Then translating every atom before the scene is built changes nothing in it: the
  positions of the atom meshes, which are the atoms' coordinates minus the centroid, are
  the same (and so are the radii, the colours and the bond cylinders).
\<close>

theorem centering_translation_exact:
  assumes "map x ats = map Num xs" and "map y ats = map Num ys" and "map z ats = map Num zs"
    and "axis_exact vx xs" and "axis_exact vy ys" and "axis_exact vz zs"
  shows "onContextCreate (p\<lparr>inputAtoms := Some (map (translate (vx, vy, vz)) ats)\<rparr>)
           = onContextCreate (p\<lparr>inputAtoms := Some ats\<rparr>)
       \<and> map (atom_mesh sty (center_of (map (translate (vx, vy, vz)) ats)))
             (map (translate (vx, vy, vz)) ats)
           = map (atom_mesh sty (center_of ats)) ats"
proof
  note et = exact_translation [OF assms]
  show "onContextCreate (p\<lparr>inputAtoms := Some (map (translate (vx, vy, vz)) ats)\<rparr>)
          = onContextCreate (p\<lparr>inputAtoms := Some ats\<rparr>)"
    by (simp only: onContextCreate_atoms et)
  show "map (atom_mesh sty (center_of (map (translate (vx, vy, vz)) ats)))
             (map (translate (vx, vy, vz)) ats)
           = map (atom_mesh sty (center_of ats)) ats"
    by (rule et(2))
qed

text \<open>
  The statement at the two atoms of \<open>unit_pair\<close>, translated by (1, 2, 3).
\<close>

theorem centering_translation_exact_witness:
  "map x unit_pair = map Num [0, 1] \<and> map y unit_pair = map Num [0, 0]
   \<and> map z unit_pair = map Num [0, 0]
   \<and> axis_exact 1 [0, 1] \<and> axis_exact 2 [0, 0] \<and> axis_exact 3 [0, 0]
   \<and> onContextCreate
         \<lparr>inputAtoms = Some (map (translate (1, 2, 3)) unit_pair), inputBonds = None,
          smiles = None, pdbData = None, style = None\<rparr>
       = onContextCreate
           \<lparr>inputAtoms = Some unit_pair, inputBonds = None,
            smiles = None, pdbData = None, style = None\<rparr>
   \<and> map (atom_mesh BallStick (center_of (map (translate (1, 2, 3)) unit_pair)))
         (map (translate (1, 2, 3)) unit_pair)
       = map (atom_mesh BallStick (center_of unit_pair)) unit_pair"
proof -
  have h: "map x unit_pair = map Num [0, 1]" "map y unit_pair = map Num [0, 0]"
    "map z unit_pair = map Num [0, 0]"
    by (simp_all add: unit_pair_def)
  from centering_translation_exact
         [where p = "\<lparr>inputAtoms = None, inputBonds = None, smiles = None, pdbData = None,
                       style = None\<rparr>" and sty = BallStick,
          OF h axis_exact_1 axis_exact_2 axis_exact_3]
       h axis_exact_1 axis_exact_2 axis_exact_3
  show ?thesis by simp
qed

lemma center_of_unit_pair: "center_of unit_pair = (Num (1 / 2), Num 0, Num 0)"
  by (simp add: center_of_def unit_pair_def round_double_0 rd_1 rd_half [simplified])

lemma positions_unit_pair:
  "map mesh_position (map (atom_mesh sty (center_of unit_pair)) unit_pair)
     = [(Num (- (1 / 2)), Num 0, Num 0), (Num (1 / 2), Num 0, Num 0)]"
  unfolding center_of_unit_pair
  by (simp add: unit_pair_def atom_mesh_def round_double_0 rd_half [simplified]
        rd_mhalf [simplified])

lemma translated_unit_pair:
  "map (translate (tenth, 0, 0)) unit_pair
     = [\<lparr>element = ''C'', x = Num (3602879701896397 / 2 ^ 55), y = Num 0, z = Num 0\<rparr>,
        \<lparr>element = ''C'', x = Num (2476979795053773 / 2 ^ 51), y = Num 0, z = Num 0\<rparr>]"
  by (simp add: unit_pair_def translate_def tenth_def round_double_0 rd_tenth [simplified]
        rd_one_tenth [simplified])

lemma center_of_translated:
  "center_of (map (translate (tenth, 0, 0)) unit_pair)
     = (Num (1351079888211149 / 2 ^ 51), Num 0, Num 0)"
  unfolding translated_unit_pair
  by (simp add: center_of_def round_double_0 rd_tenth [simplified] rd_sum_tenth [simplified]
        rd_centre_tenth [simplified])

lemma positions_translated:
  "map mesh_position (map (atom_mesh sty (center_of (map (translate (tenth, 0, 0)) unit_pair)))
       (map (translate (tenth, 0, 0)) unit_pair))
     = [(Num (- (4503599627370497 / 2 ^ 53)), Num 0, Num 0), (Num (1 / 2), Num 0, Num 0)]"
  unfolding center_of_translated
  unfolding translated_unit_pair
  by (simp add: atom_mesh_def round_double_0 rd_first_tenth [simplified]
        rd_second_tenth [simplified])

text \<open>
  Claim C6 as it is written holds of every translation. Translated by 0.1 along the first
  axis, the two atoms of \<open>unit_pair\<close> are centred at \<open>-0.5000000000000001\<close> and \<open>0.5\<close>, where
  the atoms themselves are centred at \<open>-0.5\<close> and \<open>0.5\<close>: the sum \<open>1 + 0.1\<close> and the centroid
  are rounded.
\<close>

theorem translation_by_tenth:
  "round_double 0.1 = Num tenth
   \<and> map mesh_position
       (map (atom_mesh BallStick (center_of (map (translate (tenth, 0, 0)) unit_pair)))
          (map (translate (tenth, 0, 0)) unit_pair))
       = [(Num (- (4503599627370497 / 2 ^ 53)), Num 0, Num 0), (Num (1 / 2), Num 0, Num 0)]
   \<and> map mesh_position (map (atom_mesh BallStick (center_of unit_pair)) unit_pair)
       = [(Num (- (1 / 2)), Num 0, Num 0), (Num (1 / 2), Num 0, Num 0)]
   \<and> map (atom_mesh BallStick (center_of (map (translate (tenth, 0, 0)) unit_pair)))
         (map (translate (tenth, 0, 0)) unit_pair)
       \<noteq> map (atom_mesh BallStick (center_of unit_pair)) unit_pair"
proof (intro conjI)
  show "round_double 0.1 = Num tenth" by (rule rd_0_1)
  show t: "map mesh_position
       (map (atom_mesh BallStick (center_of (map (translate (tenth, 0, 0)) unit_pair)))
          (map (translate (tenth, 0, 0)) unit_pair))
       = [(Num (- (4503599627370497 / 2 ^ 53)), Num 0, Num 0), (Num (1 / 2), Num 0, Num 0)]"
    by (rule positions_translated)
  show u: "map mesh_position (map (atom_mesh BallStick (center_of unit_pair)) unit_pair)
       = [(Num (- (1 / 2)), Num 0, Num 0), (Num (1 / 2), Num 0, Num 0)]"
    by (rule positions_unit_pair)
  show "map (atom_mesh BallStick (center_of (map (translate (tenth, 0, 0)) unit_pair)))
         (map (translate (tenth, 0, 0)) unit_pair)
       \<noteq> map (atom_mesh BallStick (center_of unit_pair)) unit_pair"
  proof
    assume "map (atom_mesh BallStick (center_of (map (translate (tenth, 0, 0)) unit_pair)))
         (map (translate (tenth, 0, 0)) unit_pair)
       = map (atom_mesh BallStick (center_of unit_pair)) unit_pair"
    then have "map mesh_position
       (map (atom_mesh BallStick (center_of (map (translate (tenth, 0, 0)) unit_pair)))
          (map (translate (tenth, 0, 0)) unit_pair))
       = map mesh_position (map (atom_mesh BallStick (center_of unit_pair)) unit_pair)"
      by (rule arg_cong)
    then show False
      unfolding t u by simp
  qed
qed

lemma atom_mesh_wireframe: "atom_mesh Wireframe = atom_mesh BallStick"
  by (intro ext) (simp add: atom_mesh_def)

lemma carbon_radius:
  "lookup_or_default number_truthy ATOM_RADII ''C'' = Entry (Num (1733885856537641 / 2 ^ 51))"
  by (simp add: lookup_or_default_def ATOM_RADII_def rd_0_77 [simplified])

lemma carbon_color: "lookup_or_default (\<lambda>n. n \<noteq> 0) ATOM_COLORS ''C'' = Entry 0x909090"
  by (simp add: lookup_or_default_def ATOM_COLORS_def)

lemma carbon_mesh:
  "sty \<noteq> SpaceFill \<Longrightarrow>
   atom_mesh sty (cx, cy, cz) \<lparr>element = ''C'', x = ax, y = ay, z = az\<rparr>
     = \<lparr>radius = Num (1387108685230113 / 2 ^ 52), color = Entry 0x909090,
        mesh_position = (jsub ax cx, jsub ay cy, jsub az cz)\<rparr>"
  by (simp add: atom_mesh_def carbon_radius carbon_color [simplified] rd_0_4 [simplified]
        rd_radius [simplified])

lemma center_of_single:
  "center_of [\<lparr>element = e, x = Num 0, y = Num 0, z = Num 0\<rparr>] = (Num 0, Num 0, Num 0)"
  by (simp add: center_of_def round_double_0)

lemma center_of_far:
  "center_of [\<lparr>element = e1, x = Num 0, y = Num 0, z = Num 0\<rparr>,
              \<lparr>element = e2, x = Num 5, y = Num 0, z = Num 0\<rparr>] = (Num (5 / 2), Num 0, Num 0)"
  by (simp add: center_of_def round_double_0 rd_5 rd_5half [simplified])

lemma inferBonds_single: "inferBonds [a] = []"
  by (simp add: inferBonds_eq upt_rec [of 0] upt_rec [of 1])

text \<open>
  Claim C7 says that the wireframe style creates no atom spheres. The component does not
  tell \<^verbatim>\<open>'wireframe'\<close> from \<^verbatim>\<open>'ball-stick'\<close>: any input renders the same scene under both, and
  a single carbon atom in wireframe style is drawn as a sphere whose radius is the
  product of the doubles 0.77 and 0.4 (\<open>0.30800000000000005\<close>).
\<close>

theorem wireframe_renders_spheres:
  "onContextCreate (p\<lparr>style := Some Wireframe\<rparr>) = onContextCreate (p\<lparr>style := Some BallStick\<rparr>)
   \<and> onContextCreate
         \<lparr>inputAtoms = Some [\<lparr>element = ''C'', x = Num 0, y = Num 0, z = Num 0\<rparr>],
          inputBonds = None, smiles = None, pdbData = None, style = Some Wireframe\<rparr>
       = Inr \<lparr>spheres = [\<lparr>radius = Num (1387108685230113 / 2 ^ 52), color = Entry 0x909090,
                           mesh_position = (Num 0, Num 0, Num 0)\<rparr>],
              cylinders = []\<rparr>"
proof (intro conjI)
  show "onContextCreate (p\<lparr>style := Some Wireframe\<rparr>)
          = onContextCreate (p\<lparr>style := Some BallStick\<rparr>)"
    by (simp add: onContextCreate_def Let_def atom_mesh_wireframe cong: sum.case_cong)
  show "onContextCreate
         \<lparr>inputAtoms = Some [\<lparr>element = ''C'', x = Num 0, y = Num 0, z = Num 0\<rparr>],
          inputBonds = None, smiles = None, pdbData = None, style = Some Wireframe\<rparr>
       = Inr \<lparr>spheres = [\<lparr>radius = Num (1387108685230113 / 2 ^ 52), color = Entry 0x909090,
                           mesh_position = (Num 0, Num 0, Num 0)\<rparr>],
              cylinders = []\<rparr>"
    by (simp add: onContextCreate_def Let_def parseMoleculeData_atoms inferBonds_single
          center_of_single carbon_mesh round_double_0)
qed

text \<open>
  Claim C8 says that bonds supplied by the caller are the ones rendered. The component
  binds the property to \<open>inputBonds\<close> and never reads it: the scene does not depend on it,
  and two atoms five units apart given together with a bond between them are drawn
  without any cylinder.
\<close>

theorem caller_bonds_ignored:
  "onContextCreate (p\<lparr>inputBonds := bs\<rparr>) = onContextCreate p
   \<and> onContextCreate
         \<lparr>inputAtoms = Some [\<lparr>element = ''C'', x = Num 0, y = Num 0, z = Num 0\<rparr>,
                             \<lparr>element = ''C'', x = Num 5, y = Num 0, z = Num 0\<rparr>],
          inputBonds = Some [\<lparr>atom1 = 0, atom2 = 1, order = 1\<rparr>],
          smiles = None, pdbData = None, style = None\<rparr>
       = Inr \<lparr>spheres = [\<lparr>radius = Num (1387108685230113 / 2 ^ 52), color = Entry 0x909090,
                           mesh_position = (Num (- (5 / 2)), Num 0, Num 0)\<rparr>,
                          \<lparr>radius = Num (1387108685230113 / 2 ^ 52), color = Entry 0x909090,
                           mesh_position = (Num (5 / 2), Num 0, Num 0)\<rparr>],
              cylinders = []\<rparr>"
proof (intro conjI)
  show "onContextCreate (p\<lparr>inputBonds := bs\<rparr>) = onContextCreate p"
    by (simp add: onContextCreate_def)
  show "onContextCreate
         \<lparr>inputAtoms = Some [\<lparr>element = ''C'', x = Num 0, y = Num 0, z = Num 0\<rparr>,
                             \<lparr>element = ''C'', x = Num 5, y = Num 0, z = Num 0\<rparr>],
          inputBonds = Some [\<lparr>atom1 = 0, atom2 = 1, order = 1\<rparr>],
          smiles = None, pdbData = None, style = None\<rparr>
       = Inr \<lparr>spheres = [\<lparr>radius = Num (1387108685230113 / 2 ^ 52), color = Entry 0x909090,
                           mesh_position = (Num (- (5 / 2)), Num 0, Num 0)\<rparr>,
                          \<lparr>radius = Num (1387108685230113 / 2 ^ 52), color = Entry 0x909090,
                           mesh_position = (Num (5 / 2), Num 0, Num 0)\<rparr>],
              cylinders = []\<rparr>"
    by (simp add: onContextCreate_def Let_def parseMoleculeData_atoms inferBonds_far
          center_of_far carbon_mesh round_double_0 rd_5half [simplified] rd_m5half [simplified])
qed

text \<open>
  What does hold of the radius: it is the table's entry for the element, or the default
  0.8, times 1.5 in the space-fill style and times 0.4 in the two others; for an element
  named like an inherited property it is \<^verbatim>\<open>NaN\<close>.
\<close>

lemma atom_radius_scaled:
  "radius (atom_mesh sty c a)
     = (case lookup_or_default number_truthy ATOM_RADII (element a) of
          Entry r \<Rightarrow> jmul r (if sty = SpaceFill then Num 1.5 else round_double 0.4)
        | Inherited \<Rightarrow> NaN)
   \<and> lookup_or_default number_truthy ATOM_RADII ''Zn'' = Entry (round_double 0.8)
   \<and> lookup_or_default number_truthy ATOM_RADII ''toString'' = Inherited"
  by (cases c) (simp add: atom_mesh_def lookup_or_default_def ATOM_RADII_def
      object_prototype_names_def)

section \<open>The offline cache hook: reads\<close>

text \<open>
  Claim C3, as the code has it, for the read that the hook makes when it mounts. Let the
  store be readable and hold an entry that has outlived its time to live, let
  stale-while-revalidate be on, let the fetcher be rejected, let the effect not be cleaned
  up before the read ends (no unmount, no change of key), and let the device not be
  reported offline. Then the hook ends with the stored data, \<open>isStale\<close> set, \<open>isLoading\<close>
  cleared and the fetcher's error in the \<open>error\<close> field, beside the stale data; the store
  is untouched and the fetcher was called once.
\<close>

theorem stale_data_with_error:
  assumes "store (cacheKey key) = Some entry"
    and "real_of_int (now_at_load env - timestamp entry)
           > (case ttl entry of None \<Rightarrow> 0 | Some t \<Rightarrow> t)"
    and "staleWhileRevalidate options"
    and "cache_read_error env = None"
    and "\<not> cleanup_during_load env" and "\<not> cleanup_during_fetch env"
    and "fetcher_outcome env = Inl err"
    and "reported_offline env \<noteq> Some True"
  shows "state (mount key options truthy env store)
           = \<lparr>data = Some (entry_data entry), isLoading = False, isStale = True,
              isOffline = False, error = Some err\<rparr>
       \<and> storage (mount key options truthy env store) = store
       \<and> fetcher_calls (mount key options truthy env store) = 1"
proof -
  from assms(8) have "report_network env (initial_state :: ('a, 'b) hook_state) = initial_state"
    by (cases "reported_offline env") (auto simp: report_network_def initial_state_def)
  with assms(1-7) show ?thesis
    by (simp add: mount_def loadCachedData_def fetchAndCache_def on_catch_def on_finally_def
          initial_state_def Let_def)
qed

text \<open>
  The statement at the example: the hook is mounted over the expired entry and its
  fetcher is rejected.
\<close>

theorem stale_data_with_error_witness:
  "expired_store (cacheKey ''recent_activity'')
     = Some \<lparr>entry_data = 7, timestamp = 0, ttl = Some 60000\<rparr>
   \<and> real_of_int (now_at_load failing_read - 0) > 60000
   \<and> staleWhileRevalidate default_options
   \<and> cache_read_error failing_read = None
   \<and> \<not> cleanup_during_load failing_read \<and> \<not> cleanup_during_fetch failing_read
   \<and> fetcher_outcome failing_read = Inl ''Network request failed''
   \<and> reported_offline failing_read \<noteq> Some True
   \<and> state (mount ''recent_activity'' default_options nat_truthy failing_read expired_store)
       = \<lparr>data = Some 7, isLoading = False, isStale = True, isOffline = False,
          error = Some ''Network request failed''\<rparr>
   \<and> storage (mount ''recent_activity'' default_options nat_truthy failing_read expired_store)
       = expired_store
   \<and> fetcher_calls (mount ''recent_activity'' default_options nat_truthy failing_read
        expired_store) = 1"
proof -
  have h1: "expired_store (cacheKey ''recent_activity'')
              = Some \<lparr>entry_data = 7, timestamp = 0, ttl = Some 60000\<rparr>"
    by (simp add: expired_store_def)
  have h2: "real_of_int (now_at_load failing_read
                - timestamp \<lparr>entry_data = 7::nat, timestamp = 0, ttl = Some 60000\<rparr>)
              > (case ttl \<lparr>entry_data = 7::nat, timestamp = 0, ttl = Some 60000\<rparr> of
                   None \<Rightarrow> 0 | Some t \<Rightarrow> t)"
    by (simp add: failing_read_def)
  have h3: "staleWhileRevalidate default_options"
    by (simp add: staleWhileRevalidate_def default_options_def)
  have h4: "cache_read_error failing_read = None"
    and h5: "\<not> cleanup_during_load failing_read" "\<not> cleanup_during_fetch failing_read"
    and h6: "fetcher_outcome failing_read = Inl ''Network request failed''"
    and h7: "reported_offline failing_read \<noteq> Some True"
    by (simp_all add: failing_read_def)
  from stale_data_with_error
         [where store = expired_store and key = "''recent_activity''" and env = failing_read
            and options = default_options and truthy = nat_truthy,
          OF h1 h2 h3 h4 h5 h6 h7]
       h1 h2 h3 h4 h5 h6 h7
  show ?thesis by simp
qed

text \<open>
  Claim C3 as it is written has the \<open>error\<close> field stay null. Mounted over the expired
  entry with a rejected fetcher, on a device that is online, the hook ends with the
  fetcher's error in that field, beside the stale data and the stale flag.
\<close>

theorem stale_read_error_not_null:
  "error (state (mount ''recent_activity'' default_options nat_truthy failing_read
       expired_store)) = Some ''Network request failed''
   \<and> data (state (mount ''recent_activity'' default_options nat_truthy failing_read
       expired_store)) = Some 7
   \<and> isStale (state (mount ''recent_activity'' default_options nat_truthy failing_read
       expired_store))"
  by (simp add: mount_def loadCachedData_def fetchAndCache_def on_catch_def on_finally_def
        report_network_def expired_store_def failing_read_def default_options_def
        initial_state_def staleWhileRevalidate_def Let_def)

lemma mount_failing_read:
  "mount ''recent_activity'' default_options nat_truthy failing_read expired_store
     = \<lparr>state = \<lparr>data = Some 7, isLoading = False, isStale = True, isOffline = False,
                  error = Some ''Network request failed''\<rparr>,
        storage = expired_store, fetcher_calls = 1, isMounted = True\<rparr>"
  by (simp add: mount_def loadCachedData_def fetchAndCache_def on_catch_def on_finally_def
        report_network_def expired_store_def failing_read_def default_options_def
        initial_state_def staleWhileRevalidate_def Let_def)

lemma change_key_unmounted:
  "data (state (change_key key options truthy env st store)) = data st
   \<and> isStale (state (change_key key options truthy env st store)) = isStale st
   \<and> \<not> isMounted (change_key key options truthy env st store)"
  by (simp add: change_key_def loadCachedData_def fetchAndCache_def on_catch_def on_finally_def
        report_network_def Let_def split: option.splits sum.splits)

text \<open>
  Claim C9 says that a read whose fetcher succeeds ends with the fetched value and
  \<open>isStale\<close> false. The cleanup of the effect sets \<^verbatim>\<open>isMounted.current\<close> to false when the
  key changes and nothing sets it to true again, so the read for a new key never writes
  the cells \<open>data\<close> and \<open>isStale\<close>, whatever its fetcher returns. At the example: the hook
  is mounted over the expired entry with a rejected fetcher, then its key changes and
  the fetcher delivers 8; the value is stored under the new key, and the hook keeps
  showing the data of the old key, marked stale, and stays loading.
\<close>

theorem key_change_keeps_previous_data:
  "data (state (change_key key options truthy env st store)) = data st
   \<and> isStale (state (change_key key options truthy env st store)) = isStale st
   \<and> state (mount ''recent_activity'' default_options nat_truthy failing_read expired_store)
       = \<lparr>data = Some 7, isLoading = False, isStale = True, isOffline = False,
          error = Some ''Network request failed''\<rparr>
   \<and> state (change_key ''team_activity'' default_options nat_truthy key_change_read
        (state (mount ''recent_activity'' default_options nat_truthy failing_read expired_store))
        (storage (mount ''recent_activity'' default_options nat_truthy failing_read
           expired_store)))
       = \<lparr>data = Some 7, isLoading = True, isStale = True, isOffline = False, error = None\<rparr>
   \<and> storage (change_key ''team_activity'' default_options nat_truthy key_change_read
        (state (mount ''recent_activity'' default_options nat_truthy failing_read expired_store))
        (storage (mount ''recent_activity'' default_options nat_truthy failing_read
           expired_store))) (cacheKey ''team_activity'')
       = Some \<lparr>entry_data = 8, timestamp = 95004, ttl = Some 300000\<rparr>
   \<and> fetcher_calls (change_key ''team_activity'' default_options nat_truthy key_change_read
        (state (mount ''recent_activity'' default_options nat_truthy failing_read expired_store))
        (storage (mount ''recent_activity'' default_options nat_truthy failing_read
           expired_store))) = 1"
proof (intro conjI)
  show "data (state (change_key key options truthy env st store)) = data st"
    and "isStale (state (change_key key options truthy env st store)) = isStale st"
    by (simp_all add: change_key_unmounted)
  show "state (mount ''recent_activity'' default_options nat_truthy failing_read expired_store)
       = \<lparr>data = Some 7, isLoading = False, isStale = True, isOffline = False,
          error = Some ''Network request failed''\<rparr>"
    by (simp add: mount_failing_read)
  have k: "expired_store (cacheKey ''team_activity'') = None"
    by (simp add: expired_store_def cacheKey_def CACHE_PREFIX_def)
  show "state (change_key ''team_activity'' default_options nat_truthy key_change_read
        (state (mount ''recent_activity'' default_options nat_truthy failing_read expired_store))
        (storage (mount ''recent_activity'' default_options nat_truthy failing_read
           expired_store)))
       = \<lparr>data = Some 7, isLoading = True, isStale = True, isOffline = False, error = None\<rparr>"
    unfolding mount_failing_read
    by (simp add: change_key_def loadCachedData_def fetchAndCache_def on_catch_def
          on_finally_def report_network_def key_change_read_def k Let_def)
  show "storage (change_key ''team_activity'' default_options nat_truthy key_change_read
        (state (mount ''recent_activity'' default_options nat_truthy failing_read expired_store))
        (storage (mount ''recent_activity'' default_options nat_truthy failing_read
           expired_store))) (cacheKey ''team_activity'')
       = Some \<lparr>entry_data = 8, timestamp = 95004, ttl = Some 300000\<rparr>"
    unfolding mount_failing_read
    by (simp add: change_key_def loadCachedData_def fetchAndCache_def on_catch_def
          on_finally_def report_network_def key_change_read_def k Let_def ttl_of_def
          default_options_def DEFAULT_TTL_def)
  show "fetcher_calls (change_key ''team_activity'' default_options nat_truthy key_change_read
        (state (mount ''recent_activity'' default_options nat_truthy failing_read expired_store))
        (storage (mount ''recent_activity'' default_options nat_truthy failing_read
           expired_store))) = 1"
    unfolding mount_failing_read
    by (simp add: change_key_def loadCachedData_def fetchAndCache_def on_catch_def
          on_finally_def report_network_def key_change_read_def k Let_def)
qed

text \<open>
  What does hold of the round trip, for the read that the hook makes when it mounts: if
  the store works, the effect is not cleaned up and the time to live is finite, a
  successful fetcher ends in the value, \<open>isStale\<close> false, \<open>error\<close> null and \<open>isLoading\<close>
  false; the value is stored with the clock's reading at that moment; and a hook mounted
  on the key within the time to live shows the stored value without calling its fetcher.
\<close>

lemma mount_round_trip:
  assumes "fetcher_outcome env = Inr v"
    and "cache_read_error env = None" and "cache_write_error env = None"
    and "\<not> cleanup_during_load env" and "\<not> cleanup_during_fetch env"
    and "\<not> cleanup_during_write env"
    and "case store (cacheKey key) of
           None \<Rightarrow> True
         | Some entry \<Rightarrow> real_of_int (now_at_load env - timestamp entry)
                           > (case ttl entry of None \<Rightarrow> 0 | Some t \<Rightarrow> t)"
    and "ttl_of options = Num t"
  shows "fetcher_calls (mount key options truthy env store) = 1
       \<and> data (state (mount key options truthy env store)) = Some v
       \<and> \<not> isStale (state (mount key options truthy env store))
       \<and> error (state (mount key options truthy env store)) = None
       \<and> \<not> isLoading (state (mount key options truthy env store))
       \<and> storage (mount key options truthy env store) (cacheKey key)
           = Some \<lparr>entry_data = v, timestamp = now_at_store env, ttl = Some t\<rparr>
       \<and> (\<forall>options2 truthy2 env2.
             cache_read_error env2 = None
             \<and> real_of_int (now_at_load env2 - now_at_store env) \<le> t \<longrightarrow>
               fetcher_calls (mount key options2 truthy2 env2
                  (storage (mount key options truthy env store))) = 0
               \<and> storage (mount key options2 truthy2 env2
                    (storage (mount key options truthy env store)))
                   = storage (mount key options truthy env store)
               \<and> (\<not> cleanup_during_load env2 \<longrightarrow>
                    data (state (mount key options2 truthy2 env2
                      (storage (mount key options truthy env store)))) = Some v
                    \<and> \<not> isStale (state (mount key options2 truthy2 env2
                      (storage (mount key options truthy env store))))
                    \<and> \<not> isLoading (state (mount key options2 truthy2 env2
                      (storage (mount key options truthy env store))))))"
proof -
  have m: "mount key options truthy env store
             = \<lparr>state = report_network env
                  \<lparr>data = Some v, isLoading = False, isStale = False, isOffline = False,
                   error = None\<rparr>,
                storage = store(cacheKey key \<mapsto>
                  \<lparr>entry_data = v, timestamp = now_at_store env, ttl = Some t\<rparr>),
                fetcher_calls = 1, isMounted = True\<rparr>"
    using assms
    by (auto simp: mount_def loadCachedData_def fetchAndCache_def on_finally_def
          report_network_def initial_state_def Let_def split: option.splits)
  show ?thesis
    unfolding m
    by (auto simp: mount_def loadCachedData_def report_network_def initial_state_def Let_def
          split: option.splits)
qed

section \<open>The queue of pending operations: one pass of the sync\<close>

lemma sync_loop_eq:
  "snd (sync_loop fetch w pending remaining sent)
     = (remaining @ failed_operations fetch w pending, sent @ pending)"
proof (induction pending arbitrary: w remaining sent)
  case Nil
  show ?case by (simp add: failed_operations_def)
next
  case (Cons operation pending)
  obtain r w' where f: "fetch w operation = (r, w')" by (cases "fetch w operation")
  have tl: "failed_operations fetch w (operation # pending)
              = (if r \<noteq> Response True then [operation] else [])
                @ failed_operations fetch w' pending"
    by (simp add: failed_operations_def f)
  show ?case
  proof (cases r)
    case (Response ok)
    then show ?thesis using f tl Cons.IH by (cases ok) simp_all
  next
    case Rejected
    then show ?thesis using f tl Cons.IH by simp
  qed
qed

lemma syncPendingOperations_eq:
  "pending_store (syncPendingOperations fetch w (Some pending))
      = (if failed_operations fetch w pending = [] then None
         else Some (failed_operations fetch w pending))"
  "requests (syncPendingOperations fetch w (Some pending)) = pending"
  using sync_loop_eq [of fetch w pending "[]" "[]"]
  by (auto simp: syncPendingOperations_def split: prod.splits)

lemma all_fail_Rejected: "failed_operations (\<lambda>w p. (Rejected, w)) w pending = pending"
  by (induction pending) (simp_all add: failed_operations_def)

lemma all_fail_Response: "failed_operations (\<lambda>w p. (Response False, w)) w pending = pending"
  by (induction pending) (simp_all add: failed_operations_def)

lemma all_succeed: "failed_operations (\<lambda>w p. (Response True, w)) w pending = []"
  by (induction pending) (simp_all add: failed_operations_def)

text \<open>
  Claim C4. One pass over a stored list sends a request for every operation, in the
  order of the list, whatever the earlier requests returned. The list stored afterwards
  consists of the operations whose request did not get an ok response (a response that is
  not ok, or a thrown error), in their original order; when there is none the key is
  removed. In particular an operation queued and then synced against an endpoint that
  fails stays where it was put, and against endpoints that all succeed the queue is gone.
\<close>

theorem sync_fifo:
  "requests (syncPendingOperations fetch w (Some pending)) = pending
   \<and> pending_store (syncPendingOperations fetch w (Some pending))
       = (if failed_operations fetch w pending = [] then None
          else Some (failed_operations fetch w pending))
   \<and> pending_store (syncPendingOperations (\<lambda>w p. (Rejected, w)) w
         (queueOfflineOperation new_id now operation queue))
       = queueOfflineOperation new_id now operation queue
   \<and> pending_store (syncPendingOperations (\<lambda>w p. (Response False, w)) w
         (queueOfflineOperation new_id now operation queue))
       = queueOfflineOperation new_id now operation queue
   \<and> pending_store (syncPendingOperations (\<lambda>w p. (Response True, w)) w
         (queueOfflineOperation new_id now operation queue))
       = None"
proof -
  obtain ty ep d where op: "operation = (ty, ep, d)" by (cases operation)
  obtain ps where q: "queueOfflineOperation new_id now operation queue = Some ps" "ps \<noteq> []"
    by (simp add: queueOfflineOperation_def op)
  show ?thesis
    unfolding q
    by (simp add: syncPendingOperations_eq all_fail_Rejected all_fail_Response all_succeed q(2))
qed

end
